theory Spec2Isabelle
  imports Complex_Main
begin

section \<open>Python values and errors\<close>

text \<open>
  The notebook \<^verbatim>\<open>python/classes.ipynb\<close> develops one small program in four stages:
  a free function over four numbers, a function over a dict, a class
  \<^verbatim>\<open>SimpleParticle\<close> and a class \<^verbatim>\<open>Particle\<close> with \<^verbatim>\<open>__add__\<close> and two subclasses.
  Python is dynamically typed, so a component of a particle is a value of any kind.
  The values that occur in the notebook are ints, floats, \<^verbatim>\<open>None\<close> and the function object
  \<^verbatim>\<open>calc_mass\<close> that is stored in a dict under the key \<^verbatim>\<open>'mass'\<close>.

  A Python int is unbounded and exact. A Python float, and what \<^verbatim>\<open>np.sqrt\<close> returns, is
  a binary64 number: not-a-number, an infinity, or a finite number, given here by its real
  value. The two zeros of binary64 are one value here; they compare equal in Python.
  Every operation below rounds its result, so what the program computes is always a
  binary64 number; a literal such as \<^verbatim>\<open>41.234227\<close> enters as its rounded value.
\<close>

datatype float64 = NaN | PInf | NInf | Finite real

datatype pyfun = Calc_mass

datatype pyval = PyInt int | PyFloat float64 | PyFun pyfun | PyNone

datatype error = TypeError | OverflowError | KeyError string | AttributeError string | DanglingRef

definition and_then :: "error + 'a \<Rightarrow> ('a \<Rightarrow> error + 'b) \<Rightarrow> error + 'b" where
  "and_then r f = (case r of Inl e \<Rightarrow> Inl e | Inr v \<Rightarrow> f v)"

section \<open>Binary64 arithmetic\<close>

text \<open>
  Rounding to nearest, ties to even. A real \<open>x\<close> is rounded to a multiple of its unit in
  the last place, \<open>2\<close> to the power \<open>ulp_exp x\<close>: 52 binary places below the leading bit of
  \<open>x\<close>, and never below \<open>2 powr - 1074\<close>, the spacing of the subnormal numbers. A result of
  magnitude \<open>2 ^ 1024\<close> or more is out of range: an infinity.
\<close>

definition round_even :: "real \<Rightarrow> int" where
  "round_even y =
     (let f = \<lfloor>y\<rfloor>; d = y - of_int f
      in if d < 1 / 2 then f else if 1 / 2 < d then f + 1 else if even f then f else f + 1)"

definition ulp_exp :: "real \<Rightarrow> int" where
  "ulp_exp x = max (\<lfloor>log 2 \<bar>x\<bar>\<rfloor> - 52) (- 1074)"

definition round64 :: "real \<Rightarrow> real" where
  "round64 x =
     (if x = 0 then 0
      else of_int (round_even (x / 2 powr of_int (ulp_exp x))) * 2 powr of_int (ulp_exp x))"

definition to_f64 :: "real \<Rightarrow> float64" where
  "to_f64 x =
     (let r = round64 x
      in if 2 ^ 1024 \<le> r then PInf else if r \<le> - (2 ^ 1024) then NInf else Finite r)"

fun f64_neg :: "float64 \<Rightarrow> float64" where
  "f64_neg NaN = NaN"
| "f64_neg PInf = NInf"
| "f64_neg NInf = PInf"
| "f64_neg (Finite x) = Finite (- x)"

fun f64_add :: "float64 \<Rightarrow> float64 \<Rightarrow> float64" where
  "f64_add NaN _ = NaN"
| "f64_add _ NaN = NaN"
| "f64_add PInf NInf = NaN"
| "f64_add NInf PInf = NaN"
| "f64_add PInf _ = PInf"
| "f64_add _ PInf = PInf"
| "f64_add NInf _ = NInf"
| "f64_add _ NInf = NInf"
| "f64_add (Finite x) (Finite y) = to_f64 (x + y)"

definition f64_sub :: "float64 \<Rightarrow> float64 \<Rightarrow> float64" where
  "f64_sub x y = f64_add x (f64_neg y)"

fun f64_sqrt :: "float64 \<Rightarrow> float64" where
  "f64_sqrt NaN = NaN"
| "f64_sqrt PInf = PInf"
| "f64_sqrt NInf = NaN"
| "f64_sqrt (Finite x) = (if x < 0 then NaN else Finite (round64 (sqrt x)))"

section \<open>Python's operators and \<^verbatim>\<open>np.sqrt\<close>\<close>

text \<open>
  An int that meets a float is converted first; an int too large for a float is an
  OverflowError.
\<close>

definition int_to_float :: "int \<Rightarrow> error + float64" where
  "int_to_float n =
     (let r = round64 (of_int n)
      in if 2 ^ 1024 \<le> \<bar>r\<bar> then Inl OverflowError else Inr (Finite r))"

text \<open>
  \<^verbatim>\<open>x + y\<close> and \<^verbatim>\<open>x - y\<close>: exact on two ints, the binary64 operation on floats (which
  overflows to an infinity without raising), TypeError when an operand is not a number.
\<close>

fun py_add :: "pyval \<Rightarrow> pyval \<Rightarrow> error + pyval" where
  "py_add (PyInt x) (PyInt y) = Inr (PyInt (x + y))"
| "py_add (PyInt x) (PyFloat y) = and_then (int_to_float x) (\<lambda>x'. Inr (PyFloat (f64_add x' y)))"
| "py_add (PyFloat x) (PyInt y) = and_then (int_to_float y) (\<lambda>y'. Inr (PyFloat (f64_add x y')))"
| "py_add (PyFloat x) (PyFloat y) = Inr (PyFloat (f64_add x y))"
| "py_add _ _ = Inl TypeError"

fun py_sub :: "pyval \<Rightarrow> pyval \<Rightarrow> error + pyval" where
  "py_sub (PyInt x) (PyInt y) = Inr (PyInt (x - y))"
| "py_sub (PyInt x) (PyFloat y) = and_then (int_to_float x) (\<lambda>x'. Inr (PyFloat (f64_sub x' y)))"
| "py_sub (PyFloat x) (PyInt y) = and_then (int_to_float y) (\<lambda>y'. Inr (PyFloat (f64_sub x y')))"
| "py_sub (PyFloat x) (PyFloat y) = Inr (PyFloat (f64_sub x y))"
| "py_sub _ _ = Inl TypeError"

text \<open>
  \<^verbatim>\<open>x ** 2\<close>, the only power the notebook takes. On an int it is exact. On a finite float
  it is the C library's \<^verbatim>\<open>pow(x, 2.0)\<close>, taken as the correctly rounded square; a result out
  of range is an OverflowError, and a result too small for binary64 is a zero.
\<close>

fun py_pow2 :: "pyval \<Rightarrow> error + pyval" where
  "py_pow2 (PyInt x) = Inr (PyInt (x ^ 2))"
| "py_pow2 (PyFloat NaN) = Inr (PyFloat NaN)"
| "py_pow2 (PyFloat PInf) = Inr (PyFloat PInf)"
| "py_pow2 (PyFloat NInf) = Inr (PyFloat PInf)"
| "py_pow2 (PyFloat (Finite x)) =
     (let r = round64 (x * x)
      in if 2 ^ 1024 \<le> r then Inl OverflowError else Inr (PyFloat (Finite r)))"
| "py_pow2 _ = Inl TypeError"

text \<open>
  \<^verbatim>\<open>np.sqrt\<close> in numpy's default error state. A Python int is taken into a 64-bit integer
  type, signed or unsigned, and from there to binary64; an int that fits neither has no
  numeric type in numpy, and the call is a TypeError. A negative argument gives \<^verbatim>\<open>nan\<close>
  (with a RuntimeWarning, which is not a raise). The notebook never changes that state.
\<close>

fun np_sqrt :: "pyval \<Rightarrow> error + float64" where
  "np_sqrt (PyInt n) =
     (if - (2 ^ 63) \<le> n \<and> n < 2 ^ 64 then Inr (f64_sqrt (Finite (round64 (of_int n))))
      else Inl TypeError)"
| "np_sqrt (PyFloat x) = Inr (f64_sqrt x)"
| "np_sqrt _ = Inl TypeError"

section \<open>Stage 1: the free function\<close>

text \<open>
  \<^verbatim>\<open>def calc_mass_simple(px, py, pz, E):
      return np.sqrt(E ** 2 - (px ** 2 + py ** 2 + pz ** 2))\<close>
  Operands are evaluated left to right.
\<close>

definition calc_mass_simple :: "pyval \<Rightarrow> pyval \<Rightarrow> pyval \<Rightarrow> pyval \<Rightarrow> error + float64" where
  "calc_mass_simple px py pz E =
     and_then (py_pow2 E) (\<lambda>E2.
     and_then (py_pow2 px) (\<lambda>px2.
     and_then (py_pow2 py) (\<lambda>py2.
     and_then (py_add px2 py2) (\<lambda>s1.
     and_then (py_pow2 pz) (\<lambda>pz2.
     and_then (py_add s1 pz2) (\<lambda>s2.
     and_then (py_sub E2 s2) np_sqrt))))))"

section \<open>Stage 2: a particle as a dict\<close>

type_synonym pydict = "string \<rightharpoonup> pyval"

definition getitem :: "pydict \<Rightarrow> string \<Rightarrow> error + pyval" where
  "getitem d k = (case d k of None \<Rightarrow> Inl (KeyError k) | Some v \<Rightarrow> Inr v)"

text \<open>
  \<^verbatim>\<open>def calc_mass(particle):
      momentum = particle['px'] ** 2 + particle['py'] ** 2 + particle['pz'] ** 2
      return np.sqrt(particle['E'] ** 2 - momentum)\<close>
\<close>

definition calc_mass :: "pydict \<Rightarrow> error + float64" where
  "calc_mass particle =
     and_then (getitem particle ''px'') (\<lambda>px.
     and_then (py_pow2 px) (\<lambda>px2.
     and_then (getitem particle ''py'') (\<lambda>py.
     and_then (py_pow2 py) (\<lambda>py2.
     and_then (py_add px2 py2) (\<lambda>s1.
     and_then (getitem particle ''pz'') (\<lambda>pz.
     and_then (py_pow2 pz) (\<lambda>pz2.
     and_then (py_add s1 pz2) (\<lambda>momentum.
     and_then (getitem particle ''E'') (\<lambda>E.
     and_then (py_pow2 E) (\<lambda>E2.
     and_then (py_sub E2 momentum) np_sqrt))))))))))"

text \<open>
  The first \<^verbatim>\<open>make_particle\<close> of the notebook, the one that takes the four components:
  \<^verbatim>\<open>return {'px': px, 'py': py, 'pz': pz, 'E': E, 'mass': calc_mass}\<close>
\<close>

definition make_particle :: "pyval \<Rightarrow> pyval \<Rightarrow> pyval \<Rightarrow> pyval \<Rightarrow> pydict" where
  "make_particle px py pz E =
     [''px'' \<mapsto> px, ''py'' \<mapsto> py, ''pz'' \<mapsto> pz, ''E'' \<mapsto> E, ''mass'' \<mapsto> PyFun Calc_mass]"

text \<open>Calling a value with one dict argument, as in \<^verbatim>\<open>e1['mass'](e1)\<close>.\<close>

fun py_call :: "pyval \<Rightarrow> pydict \<Rightarrow> error + float64" where
  "py_call (PyFun Calc_mass) d = calc_mass d"
| "py_call _ _ = Inl TypeError"

section \<open>Stages 3 and 4: classes, objects on a heap\<close>

datatype pyclass = SimpleParticle | Particle | VerboseParticle | BetterParticle

record pyobj =
  cls :: pyclass
  attrs :: pydict

text \<open>
  Objects live on a heap and are handled by reference; a reference is an index into the
  heap, and allocation appends. Python never has a reference to nothing: the error
  \<open>DanglingRef\<close> only makes the model total. \<open>getattr\<close> and \<open>setattr\<close> read and write
  the data attributes of an instance, as \<^verbatim>\<open>self.px\<close> and \<^verbatim>\<open>self.px = px\<close> do; methods are
  found through the class, further down.
\<close>

type_synonym addr = nat
type_synonym heap = "pyobj list"

definition new_obj :: "pyclass \<Rightarrow> heap \<Rightarrow> heap \<times> addr" where
  "new_obj c h = (h @ [\<lparr>cls = c, attrs = Map.empty\<rparr>], length h)"

definition setattr :: "heap \<Rightarrow> addr \<Rightarrow> string \<Rightarrow> pyval \<Rightarrow> error + heap" where
  "setattr h a n v =
     (if a < length h then Inr (h[a := (h ! a)\<lparr>attrs := (attrs (h ! a))(n \<mapsto> v)\<rparr>])
      else Inl DanglingRef)"

definition getattr :: "heap \<Rightarrow> addr \<Rightarrow> string \<Rightarrow> error + pyval" where
  "getattr h a n =
     (if a < length h
      then (case attrs (h ! a) n of None \<Rightarrow> Inl (AttributeError n) | Some v \<Rightarrow> Inr v)
      else Inl DanglingRef)"

definition type_of :: "heap \<Rightarrow> addr \<Rightarrow> error + pyclass" where
  "type_of h a = (if a < length h then Inr (cls (h ! a)) else Inl DanglingRef)"

text \<open>
  \<^verbatim>\<open>def __init__(self, px, py, pz, E):
      self.px = px; self.py = py; self.pz = pz; self.E = E\<close>
  The body is the same in \<^verbatim>\<open>SimpleParticle\<close> and in \<^verbatim>\<open>Particle\<close>.
\<close>

definition SimpleParticle_init ::
  "heap \<Rightarrow> addr \<Rightarrow> pyval \<Rightarrow> pyval \<Rightarrow> pyval \<Rightarrow> pyval \<Rightarrow> error + heap" where
  "SimpleParticle_init h self px py pz E =
     and_then (setattr h self ''px'' px) (\<lambda>h1.
     and_then (setattr h1 self ''py'' py) (\<lambda>h2.
     and_then (setattr h2 self ''pz'' pz) (\<lambda>h3.
     setattr h3 self ''E'' E)))"

definition Particle_init ::
  "heap \<Rightarrow> addr \<Rightarrow> pyval \<Rightarrow> pyval \<Rightarrow> pyval \<Rightarrow> pyval \<Rightarrow> error + heap" where
  "Particle_init h self px py pz E =
     and_then (setattr h self ''px'' px) (\<lambda>h1.
     and_then (setattr h1 self ''py'' py) (\<lambda>h2.
     and_then (setattr h2 self ''pz'' pz) (\<lambda>h3.
     setattr h3 self ''E'' E)))"

text \<open>
  \<^verbatim>\<open>class BetterParticle(Particle):
      def __init__(self, px, py, pz, E, superpower=42):
          super().__init__(px, py, pz, E)
          self.superpower = superpower\<close>
\<close>

definition BetterParticle_init ::
  "heap \<Rightarrow> addr \<Rightarrow> pyval \<Rightarrow> pyval \<Rightarrow> pyval \<Rightarrow> pyval \<Rightarrow> pyval \<Rightarrow> error + heap" where
  "BetterParticle_init h self px py pz E superpower =
     and_then (Particle_init h self px py pz E) (\<lambda>h1.
     setattr h1 self ''superpower'' superpower)"

text \<open>
  Calling a class with positional arguments: a new empty object of that class, then the
  \<^verbatim>\<open>__init__\<close> the class resolves to. \<^verbatim>\<open>VerboseParticle\<close> defines none and inherits
  \<^verbatim>\<open>Particle.__init__\<close>; \<^verbatim>\<open>BetterParticle\<close> takes a fifth argument that defaults to 42.
  A wrong number of arguments is a TypeError.
\<close>

fun class_init :: "pyclass \<Rightarrow> heap \<Rightarrow> addr \<Rightarrow> pyval list \<Rightarrow> error + heap" where
  "class_init SimpleParticle h self [px, py, pz, E] = SimpleParticle_init h self px py pz E"
| "class_init Particle h self [px, py, pz, E] = Particle_init h self px py pz E"
| "class_init VerboseParticle h self [px, py, pz, E] = Particle_init h self px py pz E"
| "class_init BetterParticle h self [px, py, pz, E] =
     BetterParticle_init h self px py pz E (PyInt 42)"
| "class_init BetterParticle h self [px, py, pz, E, superpower] =
     BetterParticle_init h self px py pz E superpower"
| "class_init _ _ _ _ = Inl TypeError"

definition construct :: "pyclass \<Rightarrow> heap \<Rightarrow> pyval list \<Rightarrow> error + heap \<times> addr" where
  "construct c h args =
     (case new_obj c h of (h1, self) \<Rightarrow>
        and_then (class_init c h1 self args) (\<lambda>h2. Inr (h2, self)))"

text \<open>
  \<^verbatim>\<open>def calc_mass(self):
      return calc_mass_simple(px=self.px, py=self.py, pz=self.pz, E=self.E)\<close>
  Again the same body in both classes. A method is a heap transformer that also returns
  its value.
\<close>

definition SimpleParticle_calc_mass :: "heap \<Rightarrow> addr \<Rightarrow> error + heap \<times> float64" where
  "SimpleParticle_calc_mass h self =
     and_then (getattr h self ''px'') (\<lambda>px.
     and_then (getattr h self ''py'') (\<lambda>py.
     and_then (getattr h self ''pz'') (\<lambda>pz.
     and_then (getattr h self ''E'') (\<lambda>E.
     and_then (calc_mass_simple px py pz E) (\<lambda>m. Inr (h, m))))))"

definition Particle_calc_mass :: "heap \<Rightarrow> addr \<Rightarrow> error + heap \<times> float64" where
  "Particle_calc_mass h self =
     and_then (getattr h self ''px'') (\<lambda>px.
     and_then (getattr h self ''py'') (\<lambda>py.
     and_then (getattr h self ''pz'') (\<lambda>pz.
     and_then (getattr h self ''E'') (\<lambda>E.
     and_then (calc_mass_simple px py pz E) (\<lambda>m. Inr (h, m))))))"

text \<open>
  \<^verbatim>\<open>def __add__(self, other):
      new_px = self.px + other.px
      new_py = self.py + other.py
      new_pz = self.pz + other.pz
      new_E = self.E + other.E
      return Particle(new_px, new_py, new_pz, new_E)\<close>
  The class of the result is the name \<^verbatim>\<open>Particle\<close>, written out in the last line.
\<close>

definition Particle_add :: "heap \<Rightarrow> addr \<Rightarrow> addr \<Rightarrow> error + heap \<times> addr" where
  "Particle_add h self other =
     and_then (getattr h self ''px'') (\<lambda>spx.
     and_then (getattr h other ''px'') (\<lambda>opx.
     and_then (py_add spx opx) (\<lambda>new_px.
     and_then (getattr h self ''py'') (\<lambda>spy.
     and_then (getattr h other ''py'') (\<lambda>opy.
     and_then (py_add spy opy) (\<lambda>new_py.
     and_then (getattr h self ''pz'') (\<lambda>spz.
     and_then (getattr h other ''pz'') (\<lambda>opz.
     and_then (py_add spz opz) (\<lambda>new_pz.
     and_then (getattr h self ''E'') (\<lambda>sE.
     and_then (getattr h other ''E'') (\<lambda>oE.
     and_then (py_add sE oE) (\<lambda>new_E.
     construct Particle h [new_px, new_py, new_pz, new_E]))))))))))))"

text \<open>
  Method lookup by the class of the receiver. \<^verbatim>\<open>a.calc_mass()\<close> finds the method of
  \<^verbatim>\<open>SimpleParticle\<close> or, for \<^verbatim>\<open>Particle\<close> and its two subclasses, the one of
  \<^verbatim>\<open>Particle\<close>. \<^verbatim>\<open>a + b\<close> finds \<^verbatim>\<open>Particle.__add__\<close> for \<^verbatim>\<open>Particle\<close> and its
  subclasses; \<^verbatim>\<open>SimpleParticle\<close> has no \<^verbatim>\<open>__add__\<close>, which is a TypeError.
\<close>

definition obj_calc_mass :: "heap \<Rightarrow> addr \<Rightarrow> error + heap \<times> float64" where
  "obj_calc_mass h a =
     and_then (type_of h a) (\<lambda>c.
       case c of SimpleParticle \<Rightarrow> SimpleParticle_calc_mass h a
               | _ \<Rightarrow> Particle_calc_mass h a)"

definition obj_add :: "heap \<Rightarrow> addr \<Rightarrow> addr \<Rightarrow> error + heap \<times> addr" where
  "obj_add h a b =
     and_then (type_of h a) (\<lambda>c.
       case c of SimpleParticle \<Rightarrow> Inl TypeError
               | _ \<Rightarrow> Particle_add h a b)"

section \<open>Vocabulary for the properties\<close>

text \<open>The object that \<^verbatim>\<open>__init__\<close> leaves behind: its class and the four attributes.\<close>

definition particle_obj :: "pyclass \<Rightarrow> pyval \<Rightarrow> pyval \<Rightarrow> pyval \<Rightarrow> pyval \<Rightarrow> pyobj" where
  "particle_obj c px py pz E =
     \<lparr>cls = c, attrs = [''px'' \<mapsto> px, ''py'' \<mapsto> py, ''pz'' \<mapsto> pz, ''E'' \<mapsto> E]\<rparr>"

text \<open>The four stored components of an object, when all four attributes are there.\<close>

definition components :: "heap \<Rightarrow> addr \<Rightarrow> (pyval \<times> pyval \<times> pyval \<times> pyval) option" where
  "components h a =
     (case getattr h a ''px'' of Inl _ \<Rightarrow> None | Inr x \<Rightarrow>
       (case getattr h a ''py'' of Inl _ \<Rightarrow> None | Inr y \<Rightarrow>
         (case getattr h a ''pz'' of Inl _ \<Rightarrow> None | Inr z \<Rightarrow>
           (case getattr h a ''E'' of Inl _ \<Rightarrow> None | Inr e \<Rightarrow> Some (x, y, z, e)))))"

text \<open>The components of the object that an expression returns; nothing when it raises.\<close>

definition result_components ::
  "error + heap \<times> addr \<Rightarrow> (pyval \<times> pyval \<times> pyval \<times> pyval) option" where
  "result_components r = (case r of Inl _ \<Rightarrow> None | Inr (h, p) \<Rightarrow> components h p)"

text \<open>The value an expression returns; nothing when it raises.\<close>

definition returned :: "error + 'a \<Rightarrow> 'a option" where
  "returned r = (case r of Inl _ \<Rightarrow> None | Inr v \<Rightarrow> Some v)"

text \<open>\<^verbatim>\<open>isinstance(a, Particle)\<close>: the class of \<open>a\<close> is \<^verbatim>\<open>Particle\<close> or one of its subclasses.\<close>

definition isinstance_Particle :: "heap \<Rightarrow> addr \<Rightarrow> bool" where
  "isinstance_Particle h a =
     (case type_of h a of Inl _ \<Rightarrow> False | Inr SimpleParticle \<Rightarrow> False | Inr _ \<Rightarrow> True)"

text \<open>An int or a float.\<close>

fun is_number :: "pyval \<Rightarrow> bool" where
  "is_number (PyInt _) = True"
| "is_number (PyFloat _) = True"
| "is_number _ = False"

text \<open>An exception was raised, or the value returned is not-a-number.\<close>

fun error_or_nan :: "error + float64 \<Rightarrow> bool" where
  "error_or_nan (Inl _) = True"
| "error_or_nan (Inr NaN) = True"
| "error_or_nan (Inr _) = False"

text \<open>The expression \<^verbatim>\<open>C(px, py, pz, E).calc_mass()\<close> for a class \<open>C\<close>.\<close>

definition new_calc_mass :: "pyclass \<Rightarrow> heap \<Rightarrow> pyval list \<Rightarrow> error + float64" where
  "new_calc_mass c h args =
     and_then (construct c h args) (\<lambda>(h1, p).
     and_then (obj_calc_mass h1 p) (\<lambda>(h2, m). Inr m))"

text \<open>The expressions \<^verbatim>\<open>(a + b) + c\<close> and \<^verbatim>\<open>a + (b + c)\<close>.\<close>

definition add_left :: "heap \<Rightarrow> addr \<Rightarrow> addr \<Rightarrow> addr \<Rightarrow> error + heap \<times> addr" where
  "add_left h a b c = and_then (obj_add h a b) (\<lambda>(h1, ab). obj_add h1 ab c)"

definition add_right :: "heap \<Rightarrow> addr \<Rightarrow> addr \<Rightarrow> addr \<Rightarrow> error + heap \<times> addr" where
  "add_right h a b c = and_then (obj_add h b c) (\<lambda>(h1, bc). obj_add h1 a bc)"

text \<open>
  The notebook's own test of inheritance, started on an empty heap:
  \<^verbatim>\<open>particle1 = VerboseParticle(10, 10, 10, 50)
  particle2 = VerboseParticle(10, 10, 10, 50)
  new_particle = particle1 + particle2
  type(new_particle)\<close>
  The model also returns the class of the left operand, for comparison.
\<close>

definition verbose_cell :: "error + pyclass \<times> pyclass" where
  "verbose_cell =
     and_then (construct VerboseParticle [] [PyInt 10, PyInt 10, PyInt 10, PyInt 50]) (\<lambda>(h1, particle1).
     and_then (construct VerboseParticle h1 [PyInt 10, PyInt 10, PyInt 10, PyInt 50]) (\<lambda>(h2, particle2).
     and_then (obj_add h2 particle1 particle2) (\<lambda>(h3, new_particle).
     and_then (type_of h3 particle1) (\<lambda>t1.
     and_then (type_of h3 new_particle) (\<lambda>t. Inr (t1, t))))))"

text \<open>
  The heap after the notebook's cell
  \<^verbatim>\<open>particle1 = Particle(10, 20, 30, 100)
  particle2 = Particle(50, 10, 20, 200)\<close>
  run on an empty heap: \<open>particle1\<close> is the reference 0 and \<open>particle2\<close> the reference 1.
\<close>

definition example_heap :: heap where
  "example_heap =
     [particle_obj Particle (PyInt 10) (PyInt 20) (PyInt 30) (PyInt 100),
      particle_obj Particle (PyInt 50) (PyInt 10) (PyInt 20) (PyInt 200)]"

text \<open>
  The notebook's cell \<^verbatim>\<open>e1 = make_particle(20, 30, 20, E=41.234227)\<close> followed by
  \<^verbatim>\<open>e1['mass'](e1)\<close>. The three momenta are ints; the literal \<^verbatim>\<open>41.234227\<close> is the
  binary64 number nearest to 41234227/1000000.
\<close>

definition e1_E :: pyval where
  "e1_E = PyFloat (Finite (round64 (41234227 / 1000000)))"

definition e1 :: pydict where
  "e1 = make_particle (PyInt 20) (PyInt 30) (PyInt 20) e1_E"

definition e1_mass :: "error + float64" where
  "e1_mass = and_then (getitem e1 ''mass'') (\<lambda>f. py_call f e1)"

text \<open>
  What that cell computes, step by step: the square of the energy, the radicand, and the
  mass.
\<close>

definition e1_square :: real where
  "e1_square = round64 (round64 (41234227 / 1000000) * round64 (41234227 / 1000000))"

definition e1_radicand :: real where
  "e1_radicand = round64 (e1_square + - 1700)"

definition e1_value :: real where
  "e1_value = round64 (sqrt e1_radicand)"

text \<open>
  The heap after \<^verbatim>\<open>b1 = BetterParticle(1, 2, 3, 10)\<close> and
  \<^verbatim>\<open>b2 = BetterParticle(4, 5, 6, 20, 7)\<close>, run on an empty heap: the first takes the
  default 42 for \<^verbatim>\<open>superpower\<close>.
\<close>

definition better_heap :: heap where
  "better_heap =
     [(particle_obj BetterParticle (PyInt 1) (PyInt 2) (PyInt 3) (PyInt 10))
        \<lparr>attrs := (attrs (particle_obj BetterParticle (PyInt 1) (PyInt 2) (PyInt 3) (PyInt 10)))
                    (''superpower'' \<mapsto> PyInt 42)\<rparr>,
      (particle_obj BetterParticle (PyInt 4) (PyInt 5) (PyInt 6) (PyInt 20))
        \<lparr>attrs := (attrs (particle_obj BetterParticle (PyInt 4) (PyInt 5) (PyInt 6) (PyInt 20)))
                    (''superpower'' \<mapsto> PyInt 7)\<rparr>]"

text \<open>
  The heap after
  \<^verbatim>\<open>a = Particle(2.0**53, 0.0, 0.0, 0.0)
  b = Particle(1.0, 0.0, 0.0, 0.0)
  c = Particle(1.0, 0.0, 0.0, 0.0)\<close>
  run on an empty heap: three particles with float components, at the references 0, 1, 2.
\<close>

definition float_heap :: heap where
  "float_heap =
     [particle_obj Particle (PyFloat (Finite (2 ^ 53))) (PyFloat (Finite 0)) (PyFloat (Finite 0))
        (PyFloat (Finite 0)),
      particle_obj Particle (PyFloat (Finite 1)) (PyFloat (Finite 0)) (PyFloat (Finite 0))
        (PyFloat (Finite 0)),
      particle_obj Particle (PyFloat (Finite 1)) (PyFloat (Finite 0)) (PyFloat (Finite 0))
        (PyFloat (Finite 0))]"

section \<open>Facts about rounding\<close>

lemma round_even_of_int [simp]: "round_even (of_int n) = n"
  by (simp add: round_even_def)

lemma round_even_err: "\<bar>of_int (round_even y) - y\<bar> \<le> 1 / 2"
proof -
  have "of_int \<lfloor>y\<rfloor> \<le> y" "y < of_int \<lfloor>y\<rfloor> + 1" by linarith+
  then show ?thesis
    by (auto simp: round_even_def Let_def)
qed

lemma round64_0 [simp]: "round64 0 = 0"
  by (simp add: round64_def)

lemma round64_multiple:
  assumes "x = of_int m * 2 powr of_int (ulp_exp x)"
  shows "round64 x = x"
proof (cases "x = 0")
  case True
  then show ?thesis by simp
next
  case False
  have "x / 2 powr of_int (ulp_exp x) = of_int m"
    using assms by (metis nonzero_mult_div_cancel_right powr_eq_0_iff zero_neq_numeral)
  then show ?thesis
    using False assms by (simp add: round64_def)
qed

lemma floor_log2_eq:
  assumes "2 powr of_int k \<le> x" and "x < 2 powr of_int (k + 1)"
  shows "\<lfloor>log 2 x\<rfloor> = k"
proof -
  have "0 < x" using assms(1) by (smt (verit) powr_gt_zero)
  then show ?thesis
    using assms by (simp add: floor_log_eq_powr_iff)
qed

lemma ulp_exp_normal:
  assumes "2 powr of_int k \<le> \<bar>x\<bar>" and "\<bar>x\<bar> < 2 powr of_int (k + 1)" and "- 1022 \<le> k"
  shows "ulp_exp x = k - 52"
  using floor_log2_eq [OF assms(1,2)] assms(3) by (simp add: ulp_exp_def)


lemma powr_int_nat: "2 powr of_int (int n) = (2::real) ^ n"
  by (simp add: powr_realpow)

lemma powr_split: "(2::real) powr (a - b) * 2 powr b = 2 powr a"
  by (metis diff_add_cancel powr_add)

lemma round64_pow2: "round64 (2 ^ n) = 2 ^ n"
proof -
  have k: "ulp_exp (2 ^ n) = int n - 52"
  proof (rule ulp_exp_normal)
    show "2 powr of_int (int n) \<le> \<bar>2 ^ n :: real\<bar>" by (simp add: powr_realpow)
    have "2 powr of_int (int n + 1) = (2::real) ^ Suc n"
      using powr_int_nat [of "Suc n"] by (simp add: add.commute)
    then show "\<bar>2 ^ n :: real\<bar> < 2 powr of_int (int n + 1)" by simp
    show "- 1022 \<le> int n" by simp
  qed
  have "(2::real) powr (real n - real 52) * 2 powr real 52 = 2 powr real n"
    by (rule powr_split)
  then have "(2::real) powr (real n - 52) * 2 ^ 52 = 2 ^ n"
    by (simp only: powr_realpow zero_less_numeral) simp
  then have "(2::real) ^ n = of_int (2 ^ 52) * 2 powr of_int (ulp_exp (2 ^ n))"
    unfolding k by (simp add: mult.commute)
  then show ?thesis
    by (rule round64_multiple)
qed

lemma round64_int:
  assumes "\<bar>n\<bar> < 2 ^ 53"
  shows "round64 (of_int n) = of_int n"
proof (cases "n = 0")
  case True
  then show ?thesis by simp
next
  case False
  define k where "k = \<lfloor>log 2 \<bar>real_of_int n\<bar>\<rfloor>"
  have pos: "1 \<le> \<bar>real_of_int n\<bar>" using False by (simp flip: of_int_abs)
  then have "0 \<le> log 2 \<bar>real_of_int n\<bar>" by simp
  then have k0: "0 \<le> k" by (simp add: k_def)
  have "\<bar>real_of_int n\<bar> < 2 ^ 53" using assms by (simp flip: of_int_abs)
  then have "log 2 \<bar>real_of_int n\<bar> < 53"
    using pos by (simp add: log_less_iff)
  then have k52: "k \<le> 52" unfolding k_def by linarith
  have e: "ulp_exp (of_int n) = k - 52"
    using k0 unfolding ulp_exp_def k_def [symmetric] by simp
  have "(2::real) powr of_int (52 - k) = 2 ^ nat (52 - k)"
    using k52 powr_int [of 2 "52 - k"] by simp
  moreover have "(2::real) powr of_int (k - 52) * 2 powr of_int (52 - k) = 1"
    by (simp flip: powr_add)
  ultimately have "(2::real) ^ nat (52 - k) * 2 powr of_int (k - 52) = 1"
    by (simp add: mult.commute)
  then have "real_of_int n = of_int (n * 2 ^ nat (52 - k)) * 2 powr of_int (k - 52)"
    by (simp add: mult.assoc)
  then have "real_of_int n = of_int (n * 2 ^ nat (52 - k)) * 2 powr of_int (ulp_exp (of_int n))"
    unfolding e .
  then show ?thesis
    by (rule round64_multiple)
qed

lemma round64_err:
  assumes "2 powr (- 1022) \<le> \<bar>x\<bar>"
  shows "\<bar>round64 x - x\<bar> \<le> \<bar>x\<bar> / 2 ^ 53"
proof -
  have pos: "0 < \<bar>x\<bar>" using assms by (smt (verit) powr_gt_zero)
  then have nz: "x \<noteq> 0" by simp
  define L where "L = \<lfloor>log 2 \<bar>x\<bar>\<rfloor>"
  define u where "u = (2::real) powr of_int (L - 52)"
  have "- 1022 \<le> log 2 \<bar>x\<bar>"
    using assms pos by (simp add: le_log_iff)
  then have "- 1022 \<le> L" unfolding L_def by linarith
  then have e: "ulp_exp x = L - 52"
    unfolding ulp_exp_def L_def [symmetric] by simp
  have upos: "0 < u" by (simp add: u_def)
  have "of_int L \<le> log 2 \<bar>x\<bar>" by (simp add: L_def)
  then have "2 powr of_int L \<le> \<bar>x\<bar>"
    using pos by (simp add: powr_le_iff)
  moreover have "u * 2 ^ 52 = 2 powr of_int L"
  proof -
    have "(2::real) powr (of_int L - real 52) * 2 powr real 52 = 2 powr of_int L"
      by (rule powr_split)
    then show ?thesis
      unfolding u_def by (simp only: powr_realpow zero_less_numeral) simp
  qed
  ultimately have ule: "u * 2 ^ 52 \<le> \<bar>x\<bar>" by simp
  have r: "round64 x = of_int (round_even (x / u)) * u"
    using nz unfolding round64_def e u_def by simp
  have "round64 x - x = (of_int (round_even (x / u)) - x / u) * u"
    using upos by (simp add: r field_simps)
  then have "\<bar>round64 x - x\<bar> = \<bar>of_int (round_even (x / u)) - x / u\<bar> * u"
    using upos by (simp add: abs_mult)
  also have "\<dots> \<le> 1 / 2 * u"
    using round_even_err [of "x / u"] upos by (intro mult_right_mono) simp_all
  also have "\<dots> \<le> \<bar>x\<bar> / 2 ^ 53"
    using ule by simp
  finally show ?thesis .
qed

lemma tiny_le: "2 powr (- 1022) \<le> (1::real) / 2 ^ 10"
proof -
  have "(2::real) powr (- 1022) \<le> 2 powr (- 10)"
    by (intro powr_mono) simp_all
  also have "\<dots> = 1 / 2 ^ 10"
    by (simp add: powr_minus_divide)
  finally show ?thesis .
qed

lemma round64_bounds:
  assumes "1 / 2 ^ 10 \<le> lo" and "lo \<le> x" and "x \<le> hi"
  shows "lo * (1 - 1 / 2 ^ 53) \<le> round64 x" and "round64 x \<le> hi * (1 + 1 / 2 ^ 53)"
proof -
  have xpos: "0 < x" using assms(1,2) by (smt (verit) divide_pos_pos zero_less_power zero_less_numeral)
  have "2 powr (- 1022) \<le> \<bar>x\<bar>"
    using tiny_le assms(1,2) by linarith
  then have err: "\<bar>round64 x - x\<bar> \<le> x / 2 ^ 53"
    using round64_err [of x] xpos by simp
  have lo: "x - x / 2 ^ 53 \<le> round64 x" and hi: "round64 x \<le> x + x / 2 ^ 53"
    using err by linarith+
  have "lo * (1 - 1 / 2 ^ 53) \<le> x * (1 - 1 / 2 ^ 53)"
    using assms(2) by (intro mult_right_mono) simp_all
  also have "\<dots> = x - x / 2 ^ 53"
    by (simp add: algebra_simps)
  finally show "lo * (1 - 1 / 2 ^ 53) \<le> round64 x"
    using lo by linarith
  have "x + x / 2 ^ 53 = x * (1 + 1 / 2 ^ 53)"
    by (simp add: algebra_simps)
  also have "\<dots> \<le> hi * (1 + 1 / 2 ^ 53)"
    using assms(3) by (intro mult_right_mono) simp_all
  finally show "round64 x \<le> hi * (1 + 1 / 2 ^ 53)"
    using hi by linarith
qed

lemma round64_tie: "round64 (2 ^ 53 + 1) = 2 ^ 53"
proof -
  have e: "ulp_exp (2 ^ 53 + 1) = 1"
    using ulp_exp_normal [of 53 "2 ^ 53 + 1"] by simp
  have f: "\<lfloor>(2 ^ 53 + 1) / 2 :: real\<rfloor> = 2 ^ 52"
    by (rule floor_unique) simp_all
  have "round_even ((2 ^ 53 + 1) / 2) = 2 ^ 52"
    unfolding round_even_def f Let_def by simp
  then have "round_even ((2 ^ 53 + 1) / 2 powr of_int 1) = 2 ^ 52"
    by simp
  then have "round64 (2 ^ 53 + 1) = of_int (2 ^ 52) * 2 powr of_int 1"
    unfolding round64_def e by simp
  then show ?thesis by simp
qed

lemma round64_even: "round64 (2 ^ 53 + 2) = 2 ^ 53 + 2"
proof -
  have e: "ulp_exp (2 ^ 53 + 2) = 1"
    using ulp_exp_normal [of 53 "2 ^ 53 + 2"] by simp
  have "(2 ^ 53 + 2 :: real) = of_int (2 ^ 52 + 1) * 2 powr of_int 1"
    by simp
  then have "(2 ^ 53 + 2 :: real) = of_int (2 ^ 52 + 1) * 2 powr of_int (ulp_exp (2 ^ 53 + 2))"
    unfolding e .
  then show ?thesis by (rule round64_multiple)
qed

lemma round64_small_int [simp]:
  "round64 1 = 1" "round64 2 = 2" "round64 1700 = 1700" "round64 (- 1700) = - 1700"
  "round64 8600 = 8600" "round64 37000 = 37000"
  using round64_int [of 1] round64_int [of 2] round64_int [of 1700] round64_int [of "- 1700"]
    round64_int [of 8600] round64_int [of 37000]
  by simp_all

section \<open>Basic facts about the heap and the constructors\<close>

lemma and_then_Inr [simp]: "and_then (Inr v) f = f v"
  by (simp add: and_then_def)

lemma and_then_Inl [simp]: "and_then (Inl e) f = Inl e"
  by (simp add: and_then_def)

lemma and_then_eq_Inr: "and_then r f = Inr y \<longleftrightarrow> (\<exists>v. r = Inr v \<and> f v = Inr y)"
  by (cases r) simp_all

lemma setattr_valid: "a < length h \<Longrightarrow>
  setattr h a n v = Inr (h[a := (h ! a)\<lparr>attrs := (attrs (h ! a))(n \<mapsto> v)\<rparr>])"
  by (simp add: setattr_def)

lemma Particle_init_valid:
  "a < length h \<Longrightarrow> Particle_init h a px py pz E =
     Inr (h[a := (h ! a)\<lparr>attrs := (attrs (h ! a))(''px'' \<mapsto> px, ''py'' \<mapsto> py, ''pz'' \<mapsto> pz, ''E'' \<mapsto> E)\<rparr>])"
  by (simp add: Particle_init_def setattr_valid)

lemma SimpleParticle_init_valid:
  "a < length h \<Longrightarrow> SimpleParticle_init h a px py pz E =
     Inr (h[a := (h ! a)\<lparr>attrs := (attrs (h ! a))(''px'' \<mapsto> px, ''py'' \<mapsto> py, ''pz'' \<mapsto> pz, ''E'' \<mapsto> E)\<rparr>])"
  by (simp add: SimpleParticle_init_def setattr_valid)

lemma construct_four:
  "c \<noteq> BetterParticle \<Longrightarrow>
   construct c h [px, py, pz, E] = Inr (h @ [particle_obj c px py pz E], length h)"
  by (cases c)
     (simp_all add: construct_def new_obj_def Particle_init_valid SimpleParticle_init_valid
        particle_obj_def)

lemma construct_BetterParticle:
  "construct BetterParticle h [px, py, pz, E, sp] =
     Inr (h @ [(particle_obj BetterParticle px py pz E)
                 \<lparr>attrs := (attrs (particle_obj BetterParticle px py pz E))(''superpower'' \<mapsto> sp)\<rparr>],
          length h)"
  by (simp add: construct_def new_obj_def Particle_init_valid BetterParticle_init_def
        setattr_valid particle_obj_def)

lemma construct_BetterParticle_default:
  "construct BetterParticle h [px, py, pz, E] =
     construct BetterParticle h [px, py, pz, E, PyInt 42]"
  by (simp add: construct_def new_obj_def)

lemma getattr_old: "a < length h \<Longrightarrow> getattr (h @ xs) a n = getattr h a n"
  by (simp add: getattr_def nth_append)

lemma getattr_Inr_valid: "getattr h a n = Inr v \<Longrightarrow> a < length h"
  by (simp add: getattr_def split: if_splits)

lemma type_of_old: "a < length h \<Longrightarrow> type_of (h @ xs) a = type_of h a"
  by (simp add: type_of_def nth_append)

lemma type_of_new: "type_of (h @ [ob]) (length h) = Inr (cls ob)"
  by (simp add: type_of_def)

lemma getattr_particle_obj:
  "getattr (h @ [particle_obj c px py pz E]) (length h) ''px'' = Inr px"
  "getattr (h @ [particle_obj c px py pz E]) (length h) ''py'' = Inr py"
  "getattr (h @ [particle_obj c px py pz E]) (length h) ''pz'' = Inr pz"
  "getattr (h @ [particle_obj c px py pz E]) (length h) ''E'' = Inr E"
  "getattr (h @ [particle_obj c px py pz E]) (length h) ''superpower'' =
     Inl (AttributeError ''superpower'')"
  by (simp_all add: getattr_def particle_obj_def)

lemma components_iff:
  "components h a = Some (x, y, z, e) \<longleftrightarrow>
     getattr h a ''px'' = Inr x \<and> getattr h a ''py'' = Inr y \<and>
     getattr h a ''pz'' = Inr z \<and> getattr h a ''E'' = Inr e"
  by (auto simp: components_def split: sum.splits)

lemma components_particle_obj:
  "components (h @ [particle_obj c x y z e]) (length h) = Some (x, y, z, e)"
  by (simp add: components_iff getattr_particle_obj)

lemma components_old: "a < length h \<Longrightarrow> components (h @ xs) a = components h a"
  by (simp add: components_def getattr_old cong: sum.case_cong)

lemma components_valid: "components h a = Some m \<Longrightarrow> a < length h"
  by (cases m) (auto simp: components_iff dest: getattr_Inr_valid)

lemma components_same:
  "\<forall>n. getattr h' a' n = getattr h a n \<Longrightarrow> components h' a' = components h a"
  by (simp add: components_def cong: sum.case_cong)

lemma components_getattr:
  assumes "components h a = Some (x, y, z, e)"
  shows "getattr h a ''px'' = Inr x" "getattr h a ''py'' = Inr y"
    "getattr h a ''pz'' = Inr z" "getattr h a ''E'' = Inr e"
  using assms by (simp_all add: components_iff)

lemma Particle_add_sums:
  assumes "components h a = Some (ax, ay, az, aE)" "components h b = Some (bx, by, bz, bE)"
    "py_add ax bx = Inr sx" "py_add ay by = Inr sy" "py_add az bz = Inr sz" "py_add aE bE = Inr sE"
  shows "Particle_add h a b = Inr (h @ [particle_obj Particle sx sy sz sE], length h)"
  using assms by (simp add: components_iff Particle_add_def construct_four)

lemma obj_add_Particle:
  assumes "isinstance_Particle h a"
  shows "obj_add h a b = Particle_add h a b"
proof -
  from assms obtain c where c: "type_of h a = Inr c" "c \<noteq> SimpleParticle"
    by (auto simp: isinstance_Particle_def split: sum.splits pyclass.splits)
  then show ?thesis
    by (cases c) (simp_all add: obj_add_def)
qed

lemma obj_add_sums:
  assumes "isinstance_Particle h a"
    "components h a = Some (ax, ay, az, aE)" "components h b = Some (bx, by, bz, bE)"
    "py_add ax bx = Inr sx" "py_add ay by = Inr sy" "py_add az bz = Inr sz" "py_add aE bE = Inr sE"
  shows "obj_add h a b = Inr (h @ [particle_obj Particle sx sy sz sE], length h)"
  by (simp add: obj_add_Particle [OF assms(1)] Particle_add_sums [OF assms(2-7)])

lemma cls_particle_obj [simp]: "cls (particle_obj c px py pz E) = c"
  by (simp add: particle_obj_def)

lemma Particle_add_frame:
  assumes "Particle_add h a b = Inr (h', r)"
  shows "\<exists>ob. h' = h @ [ob] \<and> cls ob = Particle \<and> r = length h \<and> a < length h \<and> b < length h"
proof -
  from assms obtain u v where "getattr h a ''px'' = Inr u" "getattr h b ''px'' = Inr v"
    by (auto simp: Particle_add_def and_then_eq_Inr)
  then have "a < length h" "b < length h"
    by (auto dest: getattr_Inr_valid)
  with assms show ?thesis
    by (auto simp: Particle_add_def and_then_eq_Inr construct_four)
qed

lemma obj_add_frame:
  assumes "obj_add h a b = Inr (h', r)"
  shows "\<exists>ob. h' = h @ [ob] \<and> cls ob = Particle \<and> r = length h \<and> a < length h \<and> b < length h"
proof -
  from assms obtain c where c: "type_of h a = Inr c"
    by (auto simp: obj_add_def and_then_eq_Inr)
  with assms have "Particle_add h a b = Inr (h', r)"
    by (cases c) (simp_all add: obj_add_def)
  then show ?thesis by (rule Particle_add_frame)
qed

lemma Particle_calc_mass_frame:
  "Particle_calc_mass h a = Inr (h', m) \<Longrightarrow> h' = h"
  by (auto simp: Particle_calc_mass_def and_then_eq_Inr)

lemma SimpleParticle_calc_mass_frame:
  "SimpleParticle_calc_mass h a = Inr (h', m) \<Longrightarrow> h' = h"
  by (auto simp: SimpleParticle_calc_mass_def and_then_eq_Inr)

lemma obj_calc_mass_frame:
  assumes "obj_calc_mass h a = Inr (h', m)"
  shows "h' = h"
proof -
  from assms obtain c where c: "type_of h a = Inr c"
    by (auto simp: obj_calc_mass_def and_then_eq_Inr)
  with assms show ?thesis
    by (cases c)
       (auto simp: obj_calc_mass_def dest: Particle_calc_mass_frame SimpleParticle_calc_mass_frame)
qed

lemma example_heap_built:
  "and_then (construct Particle [] [PyInt 10, PyInt 20, PyInt 30, PyInt 100]) (\<lambda>(h1, particle1).
   and_then (construct Particle h1 [PyInt 50, PyInt 10, PyInt 20, PyInt 200]) (\<lambda>(h2, particle2).
     Inr (h2, particle1, particle2))) = Inr (example_heap, 0, 1)"
  by (simp add: construct_four example_heap_def)

lemma example_heap_facts:
  "type_of example_heap 0 = Inr Particle" "type_of example_heap (Suc 0) = Inr Particle"
  "isinstance_Particle example_heap 0" "isinstance_Particle example_heap (Suc 0)"
  "components example_heap 0 = Some (PyInt 10, PyInt 20, PyInt 30, PyInt 100)"
  "components example_heap (Suc 0) = Some (PyInt 50, PyInt 10, PyInt 20, PyInt 200)"
  "length example_heap = 2"
  by (simp_all add: example_heap_def type_of_def isinstance_Particle_def components_iff
        getattr_def particle_obj_def)

section \<open>Construction\<close>

text \<open>
  Claim C7. For every four values \<open>px\<close>, \<open>py\<close>, \<open>pz\<close>, \<open>E\<close>, of any kind, and on every
  heap, \<^verbatim>\<open>Particle(px, py, pz, E)\<close> succeeds and returns an object of class
  \<^verbatim>\<open>Particle\<close> whose attributes \<^verbatim>\<open>px\<close>, \<^verbatim>\<open>py\<close>, \<^verbatim>\<open>pz\<close>, \<^verbatim>\<open>E\<close> read back as exactly the
  four values given: nothing is checked and nothing is converted.
\<close>

theorem Particle_construct_roundtrip:
  "\<exists>h' p. construct Particle h [px, py, pz, E] = Inr (h', p) \<and> type_of h' p = Inr Particle \<and>
     getattr h' p ''px'' = Inr px \<and> getattr h' p ''py'' = Inr py \<and>
     getattr h' p ''pz'' = Inr pz \<and> getattr h' p ''E'' = Inr E"
  by (simp add: construct_four getattr_particle_obj type_of_new)

section \<open>Addition\<close>

text \<open>
  Claim C2. Let \<open>a\<close> and \<open>b\<close> be two objects of class \<^verbatim>\<open>Particle\<close> with their four components
  stored, and let each of the four sums \<^verbatim>\<open>a.px + b.px\<close>, \<^verbatim>\<open>a.py + b.py\<close>, \<^verbatim>\<open>a.pz + b.pz\<close>,
  \<^verbatim>\<open>a.E + b.E\<close> evaluate, to \<open>sx\<close>, \<open>sy\<close>, \<open>sz\<close>, \<open>sE\<close>. Then \<^verbatim>\<open>a + b\<close> succeeds and returns a
  new object of class \<^verbatim>\<open>Particle\<close>, different from both operands, whose components are
  these four sums. The sum of two ints always evaluates and is exact; the sum of two floats
  always evaluates and is the binary64 sum.
\<close>

theorem Particle_add_componentwise:
  assumes "type_of h a = Inr Particle" and "type_of h b = Inr Particle"
    and "components h a = Some (ax, ay, az, aE)"
    and "components h b = Some (bx, by, bz, bE)"
    and "py_add ax bx = Inr sx" and "py_add ay by = Inr sy"
    and "py_add az bz = Inr sz" and "py_add aE bE = Inr sE"
  shows "\<exists>h' r. obj_add h a b = Inr (h', r) \<and> r \<noteq> a \<and> r \<noteq> b \<and>
     type_of h' r = Inr Particle \<and>
     getattr h' r ''px'' = Inr sx \<and> getattr h' r ''py'' = Inr sy \<and>
     getattr h' r ''pz'' = Inr sz \<and> getattr h' r ''E'' = Inr sE"
proof -
  from assms(1) have inst: "isinstance_Particle h a"
    by (simp add: isinstance_Particle_def)
  from assms(3,4) have "a < length h" "b < length h"
    by (auto dest: components_valid)
  then show ?thesis
    by (simp add: obj_add_sums [OF inst assms(3-8)] getattr_particle_obj type_of_new)
qed

text \<open>The notebook's own sum: (10, 20, 30, 100) + (50, 10, 20, 200) = (60, 30, 50, 300).\<close>

theorem Particle_add_componentwise_witness:
  "type_of example_heap 0 = Inr Particle \<and> type_of example_heap 1 = Inr Particle \<and>
   components example_heap 0 = Some (PyInt 10, PyInt 20, PyInt 30, PyInt 100) \<and>
   components example_heap 1 = Some (PyInt 50, PyInt 10, PyInt 20, PyInt 200) \<and>
   py_add (PyInt 10) (PyInt 50) = Inr (PyInt 60) \<and> py_add (PyInt 20) (PyInt 10) = Inr (PyInt 30) \<and>
   py_add (PyInt 30) (PyInt 20) = Inr (PyInt 50) \<and> py_add (PyInt 100) (PyInt 200) = Inr (PyInt 300) \<and>
   (\<exists>h' r. obj_add example_heap 0 1 = Inr (h', r) \<and> r \<noteq> 0 \<and> r \<noteq> 1 \<and>
     type_of h' r = Inr Particle \<and>
     getattr h' r ''px'' = Inr (PyInt 60) \<and> getattr h' r ''py'' = Inr (PyInt 30) \<and>
     getattr h' r ''pz'' = Inr (PyInt 50) \<and> getattr h' r ''E'' = Inr (PyInt 300))"
  using Particle_add_componentwise [of example_heap 0 1 "PyInt 10" "PyInt 20" "PyInt 30" "PyInt 100"
    "PyInt 50" "PyInt 10" "PyInt 20" "PyInt 200" "PyInt 60" "PyInt 30" "PyInt 50" "PyInt 300"]
  by (simp add: example_heap_facts)

text \<open>
  Claim C1. The sum of two objects of a subclass of \<^verbatim>\<open>Particle\<close> should have the class of
  the left operand. The code does otherwise: in the notebook's own test the two operands
  are of class \<^verbatim>\<open>VerboseParticle\<close>, and \<^verbatim>\<open>type(new_particle)\<close> is \<^verbatim>\<open>Particle\<close>.
\<close>

theorem verbose_cell_result:
  "verbose_cell = Inr (VerboseParticle, Particle)"
  by (simp add: verbose_cell_def construct_four obj_add_def type_of_def nth_append
        Particle_add_def getattr_def particle_obj_def)

section \<open>The invariant mass\<close>

lemma one_normal: "2 powr (- 1022) \<le> (1::real)"
  using tiny_le by (smt (verit) divide_le_eq_1_pos one_le_power zero_less_power)

lemma round64_int_sign:
  "0 \<le> n \<Longrightarrow> 0 \<le> round64 (of_int n)"
  "n < 0 \<Longrightarrow> round64 (of_int n) < 0"
proof -
  have err: "\<bar>round64 (of_int m) - of_int m\<bar> \<le> \<bar>real_of_int m\<bar> / 2 ^ 53" if "m \<noteq> 0" for m
  proof -
    have "1 \<le> \<bar>real_of_int m\<bar>" using that by (simp flip: of_int_abs)
    then have "2 powr (- 1022) \<le> \<bar>real_of_int m\<bar>" using one_normal by linarith
    then show ?thesis by (rule round64_err)
  qed
  have small: "\<bar>x\<bar> / 2 ^ 53 < \<bar>x\<bar>" if "x \<noteq> 0" for x :: real
    using that by (simp add: field_simps)
  show "0 \<le> round64 (of_int n)" if "0 \<le> n"
  proof (cases "n = 0")
    case True
    then show ?thesis by simp
  next
    case False
    with that have "0 < real_of_int n" by simp
    then show ?thesis
      using err [OF False] small [of "real_of_int n"] by linarith
  qed
  show "round64 (of_int n) < 0" if "n < 0"
  proof -
    from that have "real_of_int n < 0" "n \<noteq> 0" by simp_all
    then show ?thesis
      using err [of n] small [of "real_of_int n"] by linarith
  qed
qed

lemma np_sqrt_int:
  "np_sqrt (PyInt r) =
     (if r < - (2 ^ 63) \<or> 2 ^ 64 \<le> r then Inl TypeError
      else if r < 0 then Inr NaN
      else Inr (Finite (round64 (sqrt (round64 (of_int r))))))"
  using round64_int_sign [of r] by (auto simp: not_less)

lemma np_sqrt_float: "np_sqrt (PyFloat x) = Inr (f64_sqrt x)"
  by simp

declare np_sqrt.simps [simp del]

lemma calc_mass_simple_int:
  "calc_mass_simple (PyInt px) (PyInt py) (PyInt pz) (PyInt E) =
     np_sqrt (PyInt (E\<^sup>2 - (px\<^sup>2 + py\<^sup>2 + pz\<^sup>2)))"
  by (simp add: calc_mass_simple_def)

lemma round64_sqrt_err:
  assumes "0 \<le> x"
  shows "\<bar>round64 (sqrt (of_int x)) - sqrt (of_int x)\<bar> \<le> sqrt (of_int x) / 2 ^ 53"
proof (cases "x = 0")
  case True
  then show ?thesis by simp
next
  case False
  with assms have "1 \<le> real_of_int x" by simp
  then have "1 \<le> sqrt (real_of_int x)" by simp
  then have "2 powr (- 1022) \<le> \<bar>sqrt (real_of_int x)\<bar>"
    using one_normal by linarith
  then have "\<bar>round64 (sqrt (real_of_int x)) - sqrt (real_of_int x)\<bar>
      \<le> \<bar>sqrt (real_of_int x)\<bar> / 2 ^ 53"
    by (rule round64_err)
  moreover have "\<bar>sqrt (real_of_int x)\<bar> = sqrt (real_of_int x)"
    using assms by simp
  ultimately show ?thesis by (simp only:)
qed

lemma SimpleParticle_calc_mass_eq: "SimpleParticle_calc_mass h a = Particle_calc_mass h a"
  by (simp add: SimpleParticle_calc_mass_def Particle_calc_mass_def)

lemma obj_calc_mass_eq: "obj_calc_mass h a = and_then (type_of h a) (\<lambda>c. Particle_calc_mass h a)"
  by (cases "type_of h a")
     (simp_all add: obj_calc_mass_def SimpleParticle_calc_mass_eq split: pyclass.splits)

lemma obj_calc_mass_components:
  assumes "components h a = Some (x, y, z, e)"
  shows "obj_calc_mass h a = and_then (calc_mass_simple x y z e) (\<lambda>m. Inr (h, m))"
proof -
  from assms have "a < length h" by (rule components_valid)
  then show ?thesis
    by (simp add: obj_calc_mass_eq type_of_def Particle_calc_mass_def components_getattr [OF assms])
qed

lemma sqrt_8600_bounds: "92.736 < sqrt 8600" "sqrt 8600 < 92.7363"
proof -
  have "(92.736::real)\<^sup>2 < 8600" by (simp add: power2_eq_square)
  then show "92.736 < sqrt 8600" by (rule real_less_rsqrt)
  have "(8600::real) < 92.7363\<^sup>2" by (simp add: power2_eq_square)
  then show "sqrt 8600 < 92.7363" by (intro real_less_lsqrt) simp_all
qed

lemma mass_8600: "\<bar>round64 (sqrt 8600) - 92.736\<bar> < 0.001"
proof -
  have "\<bar>round64 (sqrt (of_int 8600)) - sqrt (of_int 8600)\<bar> \<le> sqrt (of_int 8600) / 2 ^ 53"
    by (rule round64_sqrt_err) simp
  then have "\<bar>round64 (sqrt 8600) - sqrt 8600\<bar> \<le> sqrt 8600 / 2 ^ 53" by simp
  moreover have "sqrt 8600 / 2 ^ 53 < 1 / 10000"
    using sqrt_8600_bounds(2) by simp
  moreover have "92736 / 1000 < sqrt 8600" "sqrt 8600 < 927363 / 10000"
    using sqrt_8600_bounds by simp_all
  ultimately have "\<bar>round64 (sqrt 8600) - 92736 / 1000\<bar> < 1 / 1000"
    by linarith
  then show ?thesis by simp
qed

text \<open>
  Claim C3 says that \<^verbatim>\<open>calc_mass\<close> computes the square root of the radicand for every
  particle. It does not: on the ints (0, 0, 0, 10**10) the radicand is 10**20, whose square
  root is 10**10, and both the function and the method raise TypeError, as that int is above
  the 64-bit range of \<^verbatim>\<open>np.sqrt\<close>; on the floats (0.0, 0.0, 0.0, 2.0**512) the square of the
  energy is out of range and the function raises OverflowError.
\<close>

theorem calc_mass_big_int_raises:
  "sqrt (of_int ((10 ^ 10)\<^sup>2 - (0\<^sup>2 + 0\<^sup>2 + 0\<^sup>2))) = (10 ^ 10 :: real) \<and>
   calc_mass_simple (PyInt 0) (PyInt 0) (PyInt 0) (PyInt (10 ^ 10)) = Inl TypeError \<and>
   new_calc_mass Particle [] [PyInt 0, PyInt 0, PyInt 0, PyInt (10 ^ 10)] = Inl TypeError \<and>
   calc_mass_simple (PyFloat (Finite 0)) (PyFloat (Finite 0)) (PyFloat (Finite 0))
     (PyFloat (Finite (2 ^ 512))) = Inl OverflowError"
proof -
  have a: "calc_mass_simple (PyInt 0) (PyInt 0) (PyInt 0) (PyInt (10 ^ 10)) = Inl TypeError"
    by (simp add: calc_mass_simple_int np_sqrt_int)
  have "components ([] @ [particle_obj Particle (PyInt 0) (PyInt 0) (PyInt 0) (PyInt (10 ^ 10))])
      (length ([] :: heap)) = Some (PyInt 0, PyInt 0, PyInt 0, PyInt (10 ^ 10))"
    by (rule components_particle_obj)
  then have b: "new_calc_mass Particle [] [PyInt 0, PyInt 0, PyInt 0, PyInt (10 ^ 10)] = Inl TypeError"
    by (simp add: new_calc_mass_def construct_four obj_calc_mass_components calc_mass_simple_int
          np_sqrt_int)
  have "round64 (2 ^ 512 * 2 ^ 512) = 2 ^ 1024"
    using round64_pow2 [of 1024] by simp
  then have c: "calc_mass_simple (PyFloat (Finite 0)) (PyFloat (Finite 0)) (PyFloat (Finite 0))
     (PyFloat (Finite (2 ^ 512))) = Inl OverflowError"
    by (simp add: calc_mass_simple_def)
  have "sqrt (((10::real) ^ 10)\<^sup>2) = \<bar>10 ^ 10\<bar>" by (rule real_sqrt_abs)
  then have d: "sqrt (of_int ((10 ^ 10)\<^sup>2 - (0\<^sup>2 + 0\<^sup>2 + 0\<^sup>2))) = (10 ^ 10 :: real)"
    by simp
  from a b c d show ?thesis by (intro conjI)
qed

text \<open>
  Claim C3, amended. For a particle whose four components are ints with a radicand
  \<open>r = E\<^sup>2 - (px\<^sup>2 + py\<^sup>2 + pz\<^sup>2)\<close> that is not negative and below \<open>2 ^ 64\<close>, the function
  \<^verbatim>\<open>calc_mass_simple\<close> and the method \<^verbatim>\<open>calc_mass\<close> return the binary64 square root of the
  binary64 value of \<open>r\<close>, and the method leaves the heap as it was. When \<open>r\<close> is below
  \<open>2 ^ 53\<close> that value is \<open>r\<close> itself, and the result is within \<open>sqrt r / 2 ^ 53\<close> of
  \<open>sqrt r\<close>. On (10, 20, 30, 100) the function and the method of
  \<^verbatim>\<open>Particle(10, 20, 30, 100)\<close> return the binary64 number nearest to \<open>sqrt 8600\<close>, which is
  within 0.001 of 92.736.
\<close>

theorem calc_mass_formula:
  assumes "r = E\<^sup>2 - (px\<^sup>2 + py\<^sup>2 + pz\<^sup>2)" and "0 \<le> r" and "r < 2 ^ 64"
  shows "calc_mass_simple (PyInt px) (PyInt py) (PyInt pz) (PyInt E) =
           Inr (Finite (round64 (sqrt (round64 (of_int r))))) \<and>
         (components h a = Some (PyInt px, PyInt py, PyInt pz, PyInt E) \<longrightarrow>
            obj_calc_mass h a = Inr (h, Finite (round64 (sqrt (round64 (of_int r)))))) \<and>
         (r < 2 ^ 53 \<longrightarrow>
            round64 (of_int r) = of_int r \<and>
            \<bar>round64 (sqrt (of_int r)) - sqrt (of_int r)\<bar> \<le> sqrt (of_int r) / 2 ^ 53) \<and>
         calc_mass_simple (PyInt 10) (PyInt 20) (PyInt 30) (PyInt 100) =
           Inr (Finite (round64 (sqrt 8600))) \<and>
         new_calc_mass Particle h [PyInt 10, PyInt 20, PyInt 30, PyInt 100] =
           Inr (Finite (round64 (sqrt 8600))) \<and>
         \<bar>round64 (sqrt 8600) - 92.736\<bar> < 0.001"
proof -
  have simple: "calc_mass_simple (PyInt px) (PyInt py) (PyInt pz) (PyInt E) =
      Inr (Finite (round64 (sqrt (round64 (of_int r)))))"
    using assms(2,3) by (simp add: calc_mass_simple_int np_sqrt_int flip: assms(1))
  have by_method: "obj_calc_mass h a = Inr (h, Finite (round64 (sqrt (round64 (of_int r)))))"
    if "components h a = Some (PyInt px, PyInt py, PyInt pz, PyInt E)"
    by (simp add: obj_calc_mass_components [OF that] simple)
  have near: "round64 (of_int r) = of_int r \<and>
      \<bar>round64 (sqrt (of_int r)) - sqrt (of_int r)\<bar> \<le> sqrt (of_int r) / 2 ^ 53" if "r < 2 ^ 53"
    using that assms(2) round64_int [of r] round64_sqrt_err [of r] by simp
  have ten: "calc_mass_simple (PyInt 10) (PyInt 20) (PyInt 30) (PyInt 100) =
      Inr (Finite (round64 (sqrt 8600)))"
    by (simp add: calc_mass_simple_int np_sqrt_int)
  have fresh: "new_calc_mass Particle h [PyInt 10, PyInt 20, PyInt 30, PyInt 100] =
      Inr (Finite (round64 (sqrt 8600)))"
    by (simp add: new_calc_mass_def construct_four
          obj_calc_mass_components [OF components_particle_obj] ten)
  from simple by_method near ten fresh mass_8600 show ?thesis by blast
qed

text \<open>The second particle of the notebook, (50, 10, 20, 200): its radicand is 37000.\<close>

theorem calc_mass_formula_witness:
  "(37000::int) = 200\<^sup>2 - (50\<^sup>2 + 10\<^sup>2 + 20\<^sup>2) \<and> (0::int) \<le> 37000 \<and> (37000::int) < 2 ^ 64 \<and>
   (37000::int) < 2 ^ 53 \<and>
   components example_heap 1 = Some (PyInt 50, PyInt 10, PyInt 20, PyInt 200) \<and>
   calc_mass_simple (PyInt 50) (PyInt 10) (PyInt 20) (PyInt 200) = Inr (Finite (round64 (sqrt 37000))) \<and>
   obj_calc_mass example_heap 1 = Inr (example_heap, Finite (round64 (sqrt 37000))) \<and>
   \<bar>round64 (sqrt 37000) - sqrt 37000\<bar> \<le> sqrt 37000 / 2 ^ 53"
  using calc_mass_formula [of 37000 200 50 10 20 example_heap 1]
  by (simp add: example_heap_facts)

lemma e1_E_bounds:
  "41.23422699999 \<le> round64 (41234227 / 1000000)" "round64 (41234227 / 1000000) \<le> 41.23422700001"
proof -
  have "41234227 / 1000000 * (1 - 1 / 2 ^ 53) \<le> round64 (41234227 / 1000000)"
    by (rule round64_bounds(1) [where hi = "41234227 / 1000000"]) simp_all
  moreover have "(41.23422699999::real) \<le> 41234227 / 1000000 * (1 - 1 / 2 ^ 53)"
    by simp
  ultimately show "41.23422699999 \<le> round64 (41234227 / 1000000)"
    by (rule order_trans [rotated])
  have "round64 (41234227 / 1000000) \<le> 41234227 / 1000000 * (1 + 1 / 2 ^ 53)"
    by (rule round64_bounds(2) [where lo = "41234227 / 1000000"]) simp_all
  moreover have "41234227 / 1000000 * (1 + 1 / 2 ^ 53) \<le> (41.23422700001::real)"
    by simp
  ultimately show "round64 (41234227 / 1000000) \<le> 41.23422700001"
    by (rule order_trans)
qed

lemma e1_square_bounds: "1700.2614762867 \<le> e1_square" "e1_square \<le> 1700.2614762884"
proof -
  define f where "f = round64 (41234227 / 1000000)"
  have f: "41.23422699999 \<le> f" "f \<le> 41.23422700001"
    using e1_E_bounds by (simp_all add: f_def)
  have lo: "41.23422699999 * 41.23422699999 \<le> f * f"
    using f by (intro mult_mono) simp_all
  have hi: "f * f \<le> 41.23422700001 * 41.23422700001"
    using f by (intro mult_mono) simp_all
  have "41.23422699999 * 41.23422699999 * (1 - 1 / 2 ^ 53) \<le> round64 (f * f)"
    by (rule round64_bounds(1) [OF _ lo hi]) simp
  moreover have "(1700.2614762867::real) \<le> 41.23422699999 * 41.23422699999 * (1 - 1 / 2 ^ 53)"
    by simp
  ultimately show "1700.2614762867 \<le> e1_square"
    unfolding e1_square_def f_def by (rule order_trans [rotated])
  have "round64 (f * f) \<le> 41.23422700001 * 41.23422700001 * (1 + 1 / 2 ^ 53)"
    by (rule round64_bounds(2) [OF _ lo hi]) simp
  moreover have "41.23422700001 * 41.23422700001 * (1 + 1 / 2 ^ 53) \<le> (1700.2614762884::real)"
    by simp
  ultimately show "e1_square \<le> 1700.2614762884"
    unfolding e1_square_def f_def by (rule order_trans)
qed

lemma e1_radicand_bounds: "0.2614762866 \<le> e1_radicand" "e1_radicand \<le> 0.2614762885"
proof -
  have lo: "0.2614762867 \<le> e1_square + - 1700" and hi: "e1_square + - 1700 \<le> 0.2614762884"
    using e1_square_bounds by simp_all
  have "0.2614762867 * (1 - 1 / 2 ^ 53) \<le> round64 (e1_square + - 1700)"
    by (rule round64_bounds(1) [OF _ lo hi]) simp
  moreover have "(0.2614762866::real) \<le> 0.2614762867 * (1 - 1 / 2 ^ 53)"
    by simp
  ultimately show "0.2614762866 \<le> e1_radicand"
    unfolding e1_radicand_def by (rule order_trans [rotated])
  have "round64 (e1_square + - 1700) \<le> 0.2614762884 * (1 + 1 / 2 ^ 53)"
    by (rule round64_bounds(2) [OF _ lo hi]) simp
  moreover have "0.2614762884 * (1 + 1 / 2 ^ 53) \<le> (0.2614762885::real)"
    by simp
  ultimately show "e1_radicand \<le> 0.2614762885"
    unfolding e1_radicand_def by (rule order_trans)
qed

lemma e1_value_bounds: "0.5113475 < e1_value" "e1_value < 0.5113476"
proof -
  have "(0.51134752::real)\<^sup>2 < 0.2614762866" by (simp add: power2_eq_square)
  then have "(0.51134752::real)\<^sup>2 < e1_radicand" using e1_radicand_bounds(1) by linarith
  then have "0.51134752 < sqrt e1_radicand"
    by (rule real_less_rsqrt)
  then have lo: "0.51134752 \<le> sqrt e1_radicand"
    by simp
  have "(0.2614762885::real) < 0.511347523\<^sup>2" by (simp add: power2_eq_square)
  then have "e1_radicand < 0.511347523\<^sup>2" using e1_radicand_bounds(2) by linarith
  then have "sqrt e1_radicand < 0.511347523"
    by (intro real_less_lsqrt) simp_all
  then have hi: "sqrt e1_radicand \<le> 0.511347523"
    by simp
  have "0.51134752 * (1 - 1 / 2 ^ 53) \<le> round64 (sqrt e1_radicand)"
    by (rule round64_bounds(1) [OF _ lo hi]) simp
  moreover have "(0.5113475::real) < 0.51134752 * (1 - 1 / 2 ^ 53)"
    by simp
  ultimately show "0.5113475 < e1_value"
    unfolding e1_value_def by linarith
  have "round64 (sqrt e1_radicand) \<le> 0.511347523 * (1 + 1 / 2 ^ 53)"
    by (rule round64_bounds(2) [OF _ lo hi]) simp
  moreover have "0.511347523 * (1 + 1 / 2 ^ 53) < (0.5113476::real)"
    by simp
  ultimately show "e1_value < 0.5113476"
    unfolding e1_value_def by linarith
qed


lemma int_to_float_1700: "int_to_float 1700 = Inr (Finite 1700)"
  by (simp add: int_to_float_def)

lemma e1_pow2: "py_pow2 e1_E = Inr (PyFloat (Finite e1_square))"
proof -
  have "e1_square \<le> 1701"
    using e1_square_bounds(2) by simp
  moreover have "(1701::real) < 2 ^ 1024" by simp
  ultimately have "\<not> 2 ^ 1024 \<le> e1_square"
    by linarith
  then show ?thesis
    unfolding e1_E_def py_pow2.simps e1_square_def [symmetric] Let_def by simp
qed

lemma e1_sub: "py_sub (PyFloat (Finite e1_square)) (PyInt 1700) = Inr (PyFloat (Finite e1_radicand))"
proof -
  have "0 \<le> e1_radicand" "e1_radicand \<le> 1"
    using e1_radicand_bounds by simp_all
  moreover have "(1::real) < 2 ^ 1024" by simp
  ultimately have "\<not> 2 ^ 1024 \<le> e1_radicand" "\<not> e1_radicand \<le> - (2 ^ 1024)"
    by linarith+
  then have "to_f64 (e1_square + - 1700) = Finite e1_radicand"
    unfolding to_f64_def e1_radicand_def [symmetric] Let_def by simp
  then show ?thesis
    by (simp add: int_to_float_1700 f64_sub_def)
qed

lemma e1_sqrt: "np_sqrt (PyFloat (Finite e1_radicand)) = Inr (Finite e1_value)"
proof -
  have "\<not> e1_radicand < 0" using e1_radicand_bounds(1) by simp
  then show ?thesis
    by (simp add: np_sqrt_float e1_value_def)
qed

lemma e1_simple_eq:
  "calc_mass_simple (PyInt 20) (PyInt 30) (PyInt 20) e1_E = Inr (Finite e1_value)"
  by (simp add: calc_mass_simple_def e1_pow2 e1_sub e1_sqrt del: py_sub.simps)

lemma e1_mass_eq: "e1_mass = Inr (Finite e1_value)"
proof -
  have "getitem e1 ''mass'' = Inr (PyFun Calc_mass)"
    by (simp add: e1_def make_particle_def getitem_def)
  then have "e1_mass = calc_mass e1"
    by (simp add: e1_mass_def)
  also have "\<dots> = Inr (Finite e1_value)"
    by (simp add: calc_mass_def e1_def make_particle_def getitem_def e1_pow2 e1_sub e1_sqrt
          del: py_sub.simps)
  finally show ?thesis .
qed

text \<open>
  Claim C4 says that on (20, 30, 20, 41.234227) the mass is an error or not-a-number,
  the radicand being negative. It is not: \<open>41.234227\<^sup>2\<close> is not below 1700, and both the
  notebook's call \<^verbatim>\<open>e1['mass'](e1)\<close> and \<^verbatim>\<open>calc_mass_simple\<close> return a number.
\<close>

theorem e1_mass_not_nan:
  "\<not> error_or_nan e1_mass \<and>
   \<not> error_or_nan (calc_mass_simple (PyInt 20) (PyInt 30) (PyInt 20) e1_E) \<and>
   \<not> (41234227 / 1000000 :: real)\<^sup>2 < 20\<^sup>2 + 30\<^sup>2 + 20\<^sup>2"
proof -
  have "\<not> (41234227 / 1000000 :: real)\<^sup>2 < 20\<^sup>2 + 30\<^sup>2 + 20\<^sup>2"
    by (simp add: power2_eq_square)
  then show ?thesis
    by (simp only: e1_mass_eq e1_simple_eq error_or_nan.simps) simp
qed

text \<open>
  Claim C4, amended. On (20, 30, 20, 41.234227) the exact radicand is 0.261476287529 and
  the radicand that the code computes in binary64 lies between 0.2614762866 and
  0.2614762885: it is positive. The mass is its binary64 square root, a number between
  0.5113475 and 0.5113476; nothing is raised and the result is not not-a-number.
\<close>

theorem e1_mass_value:
  "e1_mass = Inr (Finite e1_value) \<and>
   calc_mass_simple (PyInt 20) (PyInt 30) (PyInt 20) e1_E = Inr (Finite e1_value) \<and>
   (41234227 / 1000000 :: real)\<^sup>2 - (20\<^sup>2 + 30\<^sup>2 + 20\<^sup>2) = 261476287529 / 1000000000000 \<and>
   0.2614762866 \<le> e1_radicand \<and> e1_radicand \<le> 0.2614762885 \<and>
   0.5113475 < e1_value \<and> e1_value < 0.5113476"
proof -
  have "(41234227 / 1000000 :: real)\<^sup>2 - (20\<^sup>2 + 30\<^sup>2 + 20\<^sup>2) = 261476287529 / 1000000000000"
    by (simp add: power2_eq_square)
  then show ?thesis
    using e1_mass_eq e1_simple_eq e1_radicand_bounds e1_value_bounds by (intro conjI)
qed

text \<open>
  Claim C5 says that \<^verbatim>\<open>calc_mass\<close> fails only on a negative radicand. It fails without
  one: on the ints (0, 0, 0, 2**32) the radicand is \<open>2 ^ 64\<close> and \<^verbatim>\<open>np.sqrt\<close> raises
  TypeError; on the floats (0.0, 0.0, 0.0, 2.0**512) the square of the energy raises
  OverflowError.
\<close>

theorem calc_mass_raises_without_negative_radicand:
  "(0::int)\<^sup>2 + 0\<^sup>2 + 0\<^sup>2 \<le> (2 ^ 32)\<^sup>2 \<and>
   calc_mass_simple (PyInt 0) (PyInt 0) (PyInt 0) (PyInt (2 ^ 32)) = Inl TypeError \<and>
   error_or_nan (calc_mass_simple (PyInt 0) (PyInt 0) (PyInt 0) (PyInt (2 ^ 32))) \<and>
   (0::real)\<^sup>2 + 0\<^sup>2 + 0\<^sup>2 \<le> (2 ^ 512)\<^sup>2 \<and>
   calc_mass_simple (PyFloat (Finite 0)) (PyFloat (Finite 0)) (PyFloat (Finite 0))
     (PyFloat (Finite (2 ^ 512))) = Inl OverflowError"
proof -
  have "round64 (2 ^ 512 * 2 ^ 512) = 2 ^ 1024"
    using round64_pow2 [of 1024] by simp
  then have "calc_mass_simple (PyFloat (Finite 0)) (PyFloat (Finite 0)) (PyFloat (Finite 0))
     (PyFloat (Finite (2 ^ 512))) = Inl OverflowError"
    by (simp add: calc_mass_simple_def)
  moreover have "calc_mass_simple (PyInt 0) (PyInt 0) (PyInt 0) (PyInt (2 ^ 32)) = Inl TypeError"
    by (simp add: calc_mass_simple_int np_sqrt_int)
  ultimately show ?thesis
    by simp
qed

text \<open>
  Claim C5, amended. On int components, \<^verbatim>\<open>calc_mass_simple\<close> raises or returns not-a-number
  exactly when \<open>E\<^sup>2 < px\<^sup>2 + py\<^sup>2 + pz\<^sup>2\<close> or the radicand \<open>E\<^sup>2 - (px\<^sup>2 + py\<^sup>2 + pz\<^sup>2)\<close> is
  \<open>2 ^ 64\<close> or more; when the radicand is not negative and below \<open>2 ^ 64\<close> it returns a
  finite number, the binary64 square root of the binary64 value of the radicand.
\<close>

theorem calc_mass_fails_iff:
  "(error_or_nan (calc_mass_simple (PyInt px) (PyInt py) (PyInt pz) (PyInt E)) \<longleftrightarrow>
      E\<^sup>2 < px\<^sup>2 + py\<^sup>2 + pz\<^sup>2 \<or> 2 ^ 64 \<le> E\<^sup>2 - (px\<^sup>2 + py\<^sup>2 + pz\<^sup>2)) \<and>
   (px\<^sup>2 + py\<^sup>2 + pz\<^sup>2 \<le> E\<^sup>2 \<and> E\<^sup>2 - (px\<^sup>2 + py\<^sup>2 + pz\<^sup>2) < 2 ^ 64 \<longrightarrow>
      calc_mass_simple (PyInt px) (PyInt py) (PyInt pz) (PyInt E) =
        Inr (Finite (round64 (sqrt (round64 (of_int (E\<^sup>2 - (px\<^sup>2 + py\<^sup>2 + pz\<^sup>2))))))))"
proof -
  have "error_or_nan (np_sqrt (PyInt r)) \<longleftrightarrow> r < 0 \<or> 2 ^ 64 \<le> r" for r
    by (simp add: np_sqrt_int)
  moreover have "np_sqrt (PyInt r) = Inr (Finite (round64 (sqrt (round64 (of_int r)))))"
    if "0 \<le> r" "r < 2 ^ 64" for r
    using that by (simp add: np_sqrt_int)
  ultimately show ?thesis
    unfolding calc_mass_simple_int by auto
qed

text \<open>
  On (3, 0, 4, 13) the radicand is 144 and the mass is 12; on (1, 1, 1, 1) the radicand
  is -2 and the result is not-a-number.
\<close>

theorem calc_mass_fails_iff_witness:
  "(3::int)\<^sup>2 + 0\<^sup>2 + 4\<^sup>2 \<le> 13\<^sup>2 \<and> (13::int)\<^sup>2 - (3\<^sup>2 + 0\<^sup>2 + 4\<^sup>2) < 2 ^ 64 \<and>
   calc_mass_simple (PyInt 3) (PyInt 0) (PyInt 4) (PyInt 13) = Inr (Finite 12) \<and>
   \<not> error_or_nan (calc_mass_simple (PyInt 3) (PyInt 0) (PyInt 4) (PyInt 13)) \<and>
   (1::int)\<^sup>2 < 1\<^sup>2 + 1\<^sup>2 + 1\<^sup>2 \<and>
   error_or_nan (calc_mass_simple (PyInt 1) (PyInt 1) (PyInt 1) (PyInt 1))"
proof -
  have "sqrt ((12::real)\<^sup>2) = \<bar>12\<bar>" by (rule real_sqrt_abs)
  then have s: "sqrt 144 = (12::real)" by simp
  have r: "round64 144 = 144" "round64 12 = 12"
    using round64_int [of 144] round64_int [of 12] by simp_all
  show ?thesis
    using calc_mass_fails_iff [of 3 0 4 13] calc_mass_fails_iff [of 1 1 1 1] s r
    by simp
qed

section \<open>Algebra of the addition\<close>

lemma f64_add_commute: "f64_add x y = f64_add y x"
  by (cases x; cases y) (simp_all add: add.commute)

lemma py_add_commute: "py_add x y = py_add y x"
  by (cases x; cases y) (simp_all add: add.commute f64_add_commute)

lemma Particle_add_commute:
  assumes "components h a = Some (ax, ay, az, aE)" and "components h b = Some (bx, by, bz, bE)"
  shows "Particle_add h a b = Particle_add h b a"
  by (simp add: Particle_add_def components_getattr [OF assms(1)] components_getattr [OF assms(2)]
        py_add_commute [of bx ax] py_add_commute [of "by" ay] py_add_commute [of bz az]
        py_add_commute [of bE aE])

lemma isinstance_new [simp]:
  "isinstance_Particle (h @ [particle_obj Particle px py pz E]) (length h)"
  by (simp add: isinstance_Particle_def type_of_new)

lemma isinstance_old: "a < length h \<Longrightarrow> isinstance_Particle (h @ xs) a = isinstance_Particle h a"
  by (simp add: isinstance_Particle_def type_of_old)

lemma add_left_sums:
  assumes "isinstance_Particle h a"
    and a: "components h a = Some (ax, ay, az, aE)"
    and b: "components h b = Some (bx, by, bz, bE)"
    and c: "components h c = Some (cx, cy, cz, cE)"
    and ab: "py_add ax bx = Inr sx" "py_add ay by = Inr sy" "py_add az bz = Inr sz"
      "py_add aE bE = Inr sE"
    and abc: "py_add sx cx = Inr tx" "py_add sy cy = Inr ty" "py_add sz cz = Inr tz"
      "py_add sE cE = Inr tE"
  shows "result_components (add_left h a b c) = Some (tx, ty, tz, tE)"
proof -
  let ?h1 = "h @ [particle_obj Particle sx sy sz sE]"
  have 1: "obj_add h a b = Inr (?h1, length h)"
    by (rule obj_add_sums [OF assms(1) a b ab])
  have "c < length h" using c by (rule components_valid)
  then have c1: "components ?h1 c = Some (cx, cy, cz, cE)"
    using c by (simp add: components_old)
  have 2: "obj_add ?h1 (length h) c = Inr (?h1 @ [particle_obj Particle tx ty tz tE], length ?h1)"
    by (rule obj_add_sums [OF isinstance_new components_particle_obj c1 abc])
  have 3: "components (?h1 @ [particle_obj Particle tx ty tz tE]) (length ?h1) = Some (tx, ty, tz, tE)"
    by (rule components_particle_obj)
  show ?thesis
    by (simp only: add_left_def 1 2 3 and_then_Inr prod.case result_components_def sum.case)
qed

lemma add_right_sums:
  assumes "isinstance_Particle h a" and "isinstance_Particle h b"
    and a: "components h a = Some (ax, ay, az, aE)"
    and b: "components h b = Some (bx, by, bz, bE)"
    and c: "components h c = Some (cx, cy, cz, cE)"
    and bc: "py_add bx cx = Inr sx" "py_add by cy = Inr sy" "py_add bz cz = Inr sz"
      "py_add bE cE = Inr sE"
    and abc: "py_add ax sx = Inr tx" "py_add ay sy = Inr ty" "py_add az sz = Inr tz"
      "py_add aE sE = Inr tE"
  shows "result_components (add_right h a b c) = Some (tx, ty, tz, tE)"
proof -
  let ?h1 = "h @ [particle_obj Particle sx sy sz sE]"
  have 1: "obj_add h b c = Inr (?h1, length h)"
    by (rule obj_add_sums [OF assms(2) b c bc])
  have v: "a < length h" using a by (rule components_valid)
  then have a1: "components ?h1 a = Some (ax, ay, az, aE)"
    using a by (simp add: components_old)
  have i1: "isinstance_Particle ?h1 a"
    using v assms(1) by (simp add: isinstance_old)
  have 2: "obj_add ?h1 a (length h) = Inr (?h1 @ [particle_obj Particle tx ty tz tE], length ?h1)"
    by (rule obj_add_sums [OF i1 a1 components_particle_obj abc])
  have 3: "components (?h1 @ [particle_obj Particle tx ty tz tE]) (length ?h1) = Some (tx, ty, tz, tE)"
    by (rule components_particle_obj)
  show ?thesis
    by (simp only: add_right_def 1 2 3 and_then_Inr prod.case result_components_def sum.case)
qed

lemma to_f64_examples:
  "to_f64 9007199254740993 = Finite 9007199254740992"
  "to_f64 2 = Finite 2"
  "to_f64 9007199254740994 = Finite 9007199254740994"
  "to_f64 0 = Finite 0"
proof -
  have t: "round64 9007199254740993 = 9007199254740992"
    using round64_tie by simp
  have e: "round64 9007199254740994 = 9007199254740994"
    using round64_even by simp
  show "to_f64 9007199254740993 = Finite 9007199254740992"
    by (simp add: to_f64_def t)
  show "to_f64 2 = Finite 2"
    by (simp add: to_f64_def)
  show "to_f64 9007199254740994 = Finite 9007199254740994"
    by (simp add: to_f64_def e)
  show "to_f64 0 = Finite 0"
    by (simp add: to_f64_def)
qed

lemma float_heap_built:
  "and_then (construct Particle [] [PyFloat (Finite (2 ^ 53)), PyFloat (Finite 0), PyFloat (Finite 0),
      PyFloat (Finite 0)]) (\<lambda>(h1, a).
   and_then (construct Particle h1 [PyFloat (Finite 1), PyFloat (Finite 0), PyFloat (Finite 0),
      PyFloat (Finite 0)]) (\<lambda>(h2, b).
   and_then (construct Particle h2 [PyFloat (Finite 1), PyFloat (Finite 0), PyFloat (Finite 0),
      PyFloat (Finite 0)]) (\<lambda>(h3, c).
     Inr (h3, a, b, c)))) = Inr (float_heap, 0, 1, 2)"
  by (simp add: construct_four float_heap_def)

lemma float_heap_facts:
  "isinstance_Particle float_heap 0" "isinstance_Particle float_heap (Suc 0)"
  "isinstance_Particle float_heap 2"
  "components float_heap 0 =
     Some (PyFloat (Finite 9007199254740992), PyFloat (Finite 0), PyFloat (Finite 0), PyFloat (Finite 0))"
  "components float_heap (Suc 0) =
     Some (PyFloat (Finite 1), PyFloat (Finite 0), PyFloat (Finite 0), PyFloat (Finite 0))"
  "components float_heap 2 =
     Some (PyFloat (Finite 1), PyFloat (Finite 0), PyFloat (Finite 0), PyFloat (Finite 0))"
  by (simp_all add: float_heap_def type_of_def isinstance_Particle_def components_iff
        getattr_def particle_obj_def)

text \<open>
  Claim C6 says that the addition is associative on the components of all particles. On
  float components it is not: with \<^verbatim>\<open>a.px = 2.0**53\<close>, \<^verbatim>\<open>b.px = 1.0\<close> and \<^verbatim>\<open>c.px = 1.0\<close>
  the component \<^verbatim>\<open>px\<close> of \<^verbatim>\<open>(a + b) + c\<close> is 9007199254740992.0, as \<open>2 ^ 53 + 1\<close> is
  rounded to \<open>2 ^ 53\<close> twice, and that of \<^verbatim>\<open>a + (b + c)\<close> is 9007199254740994.0.
\<close>

theorem float_add_not_associative:
  "isinstance_Particle float_heap 0 \<and> isinstance_Particle float_heap 1 \<and>
   isinstance_Particle float_heap 2 \<and>
   result_components (add_left float_heap 0 1 2) =
     Some (PyFloat (Finite 9007199254740992), PyFloat (Finite 0), PyFloat (Finite 0),
           PyFloat (Finite 0)) \<and>
   result_components (add_right float_heap 0 1 2) =
     Some (PyFloat (Finite 9007199254740994), PyFloat (Finite 0), PyFloat (Finite 0),
           PyFloat (Finite 0)) \<and>
   result_components (add_left float_heap 0 1 2) \<noteq> result_components (add_right float_heap 0 1 2)"
proof -
  have l: "result_components (add_left float_heap 0 (Suc 0) 2) =
     Some (PyFloat (Finite 9007199254740992), PyFloat (Finite 0), PyFloat (Finite 0),
           PyFloat (Finite 0))"
    by (rule add_left_sums [where sx = "PyFloat (Finite 9007199254740992)"
          and sy = "PyFloat (Finite 0)" and sz = "PyFloat (Finite 0)" and sE = "PyFloat (Finite 0)",
          OF float_heap_facts(1) float_heap_facts(4) float_heap_facts(5) float_heap_facts(6)])
       (simp_all add: to_f64_examples)
  have r: "result_components (add_right float_heap 0 (Suc 0) 2) =
     Some (PyFloat (Finite 9007199254740994), PyFloat (Finite 0), PyFloat (Finite 0),
           PyFloat (Finite 0))"
    by (rule add_right_sums [where sx = "PyFloat (Finite 2)"
          and sy = "PyFloat (Finite 0)" and sz = "PyFloat (Finite 0)" and sE = "PyFloat (Finite 0)",
          OF float_heap_facts(1) float_heap_facts(2) float_heap_facts(4) float_heap_facts(5)
            float_heap_facts(6)])
       (simp_all add: to_f64_examples)
  show ?thesis
    by (simp add: l r float_heap_facts)
qed

text \<open>
  Claim C6, amended. For objects \<open>a\<close> and \<open>b\<close> of the \<^verbatim>\<open>Particle\<close> hierarchy with their four
  components stored, whatever these are, \<^verbatim>\<open>a + b\<close> and \<^verbatim>\<open>b + a\<close> do the same: both return a
  new particle with the same components, or both raise the same exception. When the
  components of \<open>a\<close>, \<open>b\<close>, \<open>c\<close> are ints, \<^verbatim>\<open>a + b\<close> succeeds with the exact sums, and
  \<^verbatim>\<open>(a + b) + c\<close> and \<^verbatim>\<open>a + (b + c)\<close> both succeed and give the same four components.
\<close>

theorem Particle_add_comm_assoc:
  "(isinstance_Particle h a \<and> isinstance_Particle h b \<and>
    components h a = Some (ax, ay, az, aE) \<and> components h b = Some (bx, by, bz, bE) \<longrightarrow>
      obj_add h a b = obj_add h b a) \<and>
   (isinstance_Particle h a \<and> isinstance_Particle h b \<and> isinstance_Particle h c \<and>
    components h a = Some (PyInt ix, PyInt iy, PyInt iz, PyInt iE) \<and>
    components h b = Some (PyInt jx, PyInt jy, PyInt jz, PyInt jE) \<and>
    components h c = Some (PyInt kx, PyInt ky, PyInt kz, PyInt kE) \<longrightarrow>
      result_components (obj_add h a b) =
        Some (PyInt (ix + jx), PyInt (iy + jy), PyInt (iz + jz), PyInt (iE + jE)) \<and>
      result_components (obj_add h b a) = result_components (obj_add h a b) \<and>
      result_components (add_left h a b c) =
        Some (PyInt (ix + jx + kx), PyInt (iy + jy + ky), PyInt (iz + jz + kz),
              PyInt (iE + jE + kE)) \<and>
      result_components (add_right h a b c) = result_components (add_left h a b c))"
proof (intro conjI impI)
  assume "isinstance_Particle h a \<and> isinstance_Particle h b \<and>
    components h a = Some (ax, ay, az, aE) \<and> components h b = Some (bx, by, bz, bE)"
  then show "obj_add h a b = obj_add h b a"
    by (simp add: obj_add_Particle Particle_add_commute)
next
  assume H: "isinstance_Particle h a \<and> isinstance_Particle h b \<and> isinstance_Particle h c \<and>
    components h a = Some (PyInt ix, PyInt iy, PyInt iz, PyInt iE) \<and>
    components h b = Some (PyInt jx, PyInt jy, PyInt jz, PyInt jE) \<and>
    components h c = Some (PyInt kx, PyInt ky, PyInt kz, PyInt kE)"
  then have ia: "isinstance_Particle h a" and ib: "isinstance_Particle h b"
    and a: "components h a = Some (PyInt ix, PyInt iy, PyInt iz, PyInt iE)"
    and b: "components h b = Some (PyInt jx, PyInt jy, PyInt jz, PyInt jE)"
    and c: "components h c = Some (PyInt kx, PyInt ky, PyInt kz, PyInt kE)"
    by simp_all
  have ab: "obj_add h a b = Inr (h @ [particle_obj Particle (PyInt (ix + jx)) (PyInt (iy + jy))
      (PyInt (iz + jz)) (PyInt (iE + jE))], length h)"
    by (rule obj_add_sums [OF ia a b]) simp_all
  have ba: "obj_add h b a = obj_add h a b"
    by (simp add: obj_add_Particle ia ib Particle_add_commute [OF b a])
  have l: "result_components (add_left h a b c) =
      Some (PyInt (ix + jx + kx), PyInt (iy + jy + ky), PyInt (iz + jz + kz), PyInt (iE + jE + kE))"
    by (rule add_left_sums [where sx = "PyInt (ix + jx)" and sy = "PyInt (iy + jy)"
          and sz = "PyInt (iz + jz)" and sE = "PyInt (iE + jE)", OF ia a b c]) simp_all
  have r: "result_components (add_right h a b c) =
      Some (PyInt (ix + (jx + kx)), PyInt (iy + (jy + ky)), PyInt (iz + (jz + kz)),
            PyInt (iE + (jE + kE)))"
    by (rule add_right_sums [where sx = "PyInt (jx + kx)" and sy = "PyInt (jy + ky)"
          and sz = "PyInt (jz + kz)" and sE = "PyInt (jE + kE)", OF ia ib a b c]) simp_all
  show "result_components (obj_add h a b) =
      Some (PyInt (ix + jx), PyInt (iy + jy), PyInt (iz + jz), PyInt (iE + jE))"
    by (simp add: ab result_components_def components_particle_obj)
  show "result_components (obj_add h b a) = result_components (obj_add h a b)"
    by (simp only: ba)
  show "result_components (add_left h a b c) =
      Some (PyInt (ix + jx + kx), PyInt (iy + jy + ky), PyInt (iz + jz + kz), PyInt (iE + jE + kE))"
    by (rule l)
  show "result_components (add_right h a b c) = result_components (add_left h a b c)"
    by (simp add: l r add.assoc)
qed

text \<open>With the notebook's two particles: \<open>a + b\<close> is (60, 30, 50, 300) and \<open>a + b + a\<close> is (70, 50, 80, 400).\<close>

theorem Particle_add_comm_assoc_witness:
  "isinstance_Particle example_heap 0 \<and> isinstance_Particle example_heap 1 \<and>
   components example_heap 0 = Some (PyInt 10, PyInt 20, PyInt 30, PyInt 100) \<and>
   components example_heap 1 = Some (PyInt 50, PyInt 10, PyInt 20, PyInt 200) \<and>
   obj_add example_heap 0 1 = obj_add example_heap 1 0 \<and>
   result_components (obj_add example_heap 0 1) = Some (PyInt 60, PyInt 30, PyInt 50, PyInt 300) \<and>
   result_components (obj_add example_heap 1 0) = Some (PyInt 60, PyInt 30, PyInt 50, PyInt 300) \<and>
   result_components (add_left example_heap 0 1 0) = Some (PyInt 70, PyInt 50, PyInt 80, PyInt 400) \<and>
   result_components (add_right example_heap 0 1 0) = Some (PyInt 70, PyInt 50, PyInt 80, PyInt 400)"
proof -
  note T = Particle_add_comm_assoc [of example_heap 0 "Suc 0" "PyInt 10" "PyInt 20" "PyInt 30"
      "PyInt 100" "PyInt 50" "PyInt 10" "PyInt 20" "PyInt 200" 0 10 20 30 100 50 10 20 200 10 20 30 100]
  have comm: "obj_add example_heap 0 (Suc 0) = obj_add example_heap (Suc 0) 0"
    using T example_heap_facts(3-6) by blast
  have rest: "result_components (obj_add example_heap 0 (Suc 0)) =
        Some (PyInt (10 + 50), PyInt (20 + 10), PyInt (30 + 20), PyInt (100 + 200)) \<and>
      result_components (obj_add example_heap (Suc 0) 0) =
        result_components (obj_add example_heap 0 (Suc 0)) \<and>
      result_components (add_left example_heap 0 (Suc 0) 0) =
        Some (PyInt (10 + 50 + 10), PyInt (20 + 10 + 20), PyInt (30 + 20 + 30),
              PyInt (100 + 200 + 100)) \<and>
      result_components (add_right example_heap 0 (Suc 0) 0) =
        result_components (add_left example_heap 0 (Suc 0) 0)"
    using T example_heap_facts(3-6) by blast
  from rest have r: "result_components (obj_add example_heap 0 (Suc 0)) =
        Some (PyInt 60, PyInt 30, PyInt 50, PyInt 300)"
      "result_components (obj_add example_heap (Suc 0) 0) =
        Some (PyInt 60, PyInt 30, PyInt 50, PyInt 300)"
      "result_components (add_left example_heap 0 (Suc 0) 0) =
        Some (PyInt 70, PyInt 50, PyInt 80, PyInt 400)"
      "result_components (add_right example_heap 0 (Suc 0) 0) =
        Some (PyInt 70, PyInt 50, PyInt 80, PyInt 400)"
    by simp_all
  show ?thesis
    using r by (simp add: example_heap_facts flip: comm)
qed

section \<open>Frame and subclasses\<close>

text \<open>
  Claim C8. \<^verbatim>\<open>a.calc_mass()\<close>, when it returns, leaves the whole heap as it was.
  \<^verbatim>\<open>a + b\<close>, when it returns, returns a new object and leaves every object that existed
  before as it was: in particular the two operands, and every attribute of theirs, among
  them \<^verbatim>\<open>px\<close>, \<^verbatim>\<open>py\<close>, \<^verbatim>\<open>pz\<close> and \<^verbatim>\<open>E\<close>.
\<close>

theorem operations_leave_operands_unchanged:
  "(obj_calc_mass h a = Inr (h1, m) \<longrightarrow> h1 = h) \<and>
   (obj_add h a b = Inr (h2, r) \<longrightarrow>
      r \<noteq> a \<and> r \<noteq> b \<and> take (length h) h2 = h \<and> h2 ! a = h ! a \<and> h2 ! b = h ! b \<and>
      (\<forall>n. getattr h2 a n = getattr h a n \<and> getattr h2 b n = getattr h b n))"
proof -
  have "h1 = h" if "obj_calc_mass h a = Inr (h1, m)"
    using that by (rule obj_calc_mass_frame)
  moreover have "r \<noteq> a \<and> r \<noteq> b \<and> take (length h) h2 = h \<and> h2 ! a = h ! a \<and> h2 ! b = h ! b \<and>
      (\<forall>n. getattr h2 a n = getattr h a n \<and> getattr h2 b n = getattr h b n)"
    if "obj_add h a b = Inr (h2, r)"
  proof -
    from that obtain ob where "h2 = h @ [ob]" "r = length h" "a < length h" "b < length h"
      by (auto dest: obj_add_frame)
    then show ?thesis
      by (simp add: nth_append getattr_old)
  qed
  ultimately show ?thesis by blast
qed

text \<open>Both operations return on the notebook's two particles, and the operands keep their components.\<close>

theorem operations_leave_operands_unchanged_witness:
  "obj_calc_mass example_heap 0 = Inr (example_heap, Finite (round64 (sqrt 8600))) \<and>
   obj_add example_heap 0 1 =
     Inr (example_heap @ [particle_obj Particle (PyInt 60) (PyInt 30) (PyInt 50) (PyInt 300)], 2) \<and>
   (example_heap @ [particle_obj Particle (PyInt 60) (PyInt 30) (PyInt 50) (PyInt 300)]) ! 0 =
     example_heap ! 0 \<and>
   (example_heap @ [particle_obj Particle (PyInt 60) (PyInt 30) (PyInt 50) (PyInt 300)]) ! 1 =
     example_heap ! 1 \<and>
   components (example_heap @ [particle_obj Particle (PyInt 60) (PyInt 30) (PyInt 50) (PyInt 300)]) 0 =
     Some (PyInt 10, PyInt 20, PyInt 30, PyInt 100) \<and>
   components (example_heap @ [particle_obj Particle (PyInt 60) (PyInt 30) (PyInt 50) (PyInt 300)]) 1 =
     Some (PyInt 50, PyInt 10, PyInt 20, PyInt 200)"
proof -
  let ?h2 = "example_heap @ [particle_obj Particle (PyInt 60) (PyInt 30) (PyInt 50) (PyInt 300)]"
  have m: "obj_calc_mass example_heap 0 = Inr (example_heap, Finite (round64 (sqrt 8600)))"
    by (simp add: obj_calc_mass_components [OF example_heap_facts(5)] calc_mass_simple_int
          np_sqrt_int)
  have "obj_add example_heap 0 (Suc 0) =
      Inr (example_heap @ [particle_obj Particle (PyInt (10 + 50)) (PyInt (20 + 10)) (PyInt (30 + 20))
        (PyInt (100 + 200))], length example_heap)"
    by (rule obj_add_sums [OF example_heap_facts(3) example_heap_facts(5) example_heap_facts(6)])
       simp_all
  then have s: "obj_add example_heap 0 (Suc 0) = Inr (?h2, 2)"
    by (simp add: example_heap_facts(7))
  from operations_leave_operands_unchanged
    [of example_heap 0 example_heap "Finite (round64 (sqrt 8600))" "Suc 0" ?h2 2] m s
  have "?h2 ! 0 = example_heap ! 0" "?h2 ! Suc 0 = example_heap ! Suc 0"
    "\<forall>n. getattr ?h2 0 n = getattr example_heap 0 n \<and>
         getattr ?h2 (Suc 0) n = getattr example_heap (Suc 0) n"
    by simp_all
  then have "components ?h2 0 = components example_heap 0"
    "components ?h2 (Suc 0) = components example_heap (Suc 0)"
    by (simp_all add: components_same)
  with m s \<open>?h2 ! 0 = example_heap ! 0\<close> \<open>?h2 ! Suc 0 = example_heap ! Suc 0\<close> show ?thesis
    by (simp add: example_heap_facts)
qed

lemma better_heap_built:
  "and_then (construct BetterParticle [] [PyInt 1, PyInt 2, PyInt 3, PyInt 10]) (\<lambda>(h1, b1).
   and_then (construct BetterParticle h1 [PyInt 4, PyInt 5, PyInt 6, PyInt 20, PyInt 7]) (\<lambda>(h2, b2).
     Inr (h2, b1, b2))) = Inr (better_heap, 0, 1)"
  by (simp add: construct_BetterParticle_default construct_BetterParticle better_heap_def)

lemma better_heap_facts:
  "type_of better_heap 0 = Inr BetterParticle" "type_of better_heap (Suc 0) = Inr BetterParticle"
  "components better_heap 0 = Some (PyInt 1, PyInt 2, PyInt 3, PyInt 10)"
  "components better_heap (Suc 0) = Some (PyInt 4, PyInt 5, PyInt 6, PyInt 20)"
  "getattr better_heap 0 ''superpower'' = Inr (PyInt 42)"
  "getattr better_heap (Suc 0) ''superpower'' = Inr (PyInt 7)"
  by (simp_all add: better_heap_def type_of_def components_iff getattr_def particle_obj_def)

text \<open>
  Claim C9. For two objects of class \<^verbatim>\<open>BetterParticle\<close> with their four components stored
  and the four sums evaluating, as they do on ints and on floats, \<^verbatim>\<open>a + b\<close> succeeds and
  returns an object of the base class \<^verbatim>\<open>Particle\<close> with the summed components and no
  attribute \<^verbatim>\<open>superpower\<close>: reading it is an AttributeError.
\<close>

theorem BetterParticle_add_returns_Particle:
  assumes "type_of h a = Inr BetterParticle" and "type_of h b = Inr BetterParticle"
    and "components h a = Some (ax, ay, az, aE)"
    and "components h b = Some (bx, by, bz, bE)"
    and "py_add ax bx = Inr sx" and "py_add ay by = Inr sy"
    and "py_add az bz = Inr sz" and "py_add aE bE = Inr sE"
  shows "\<exists>h' r. obj_add h a b = Inr (h', r) \<and> type_of h' r = Inr Particle \<and>
     getattr h' r ''superpower'' = Inl (AttributeError ''superpower'') \<and>
     components h' r = Some (sx, sy, sz, sE)"
proof -
  from assms(1) have inst: "isinstance_Particle h a"
    by (simp add: isinstance_Particle_def)
  show ?thesis
    by (simp add: obj_add_sums [OF inst assms(3-8)] getattr_particle_obj type_of_new
          components_particle_obj)
qed

text \<open>The operands carry \<^verbatim>\<open>superpower\<close> 42 and 7; their sum (5, 7, 9, 30) carries none.\<close>

theorem BetterParticle_add_returns_Particle_witness:
  "type_of better_heap 0 = Inr BetterParticle \<and> type_of better_heap 1 = Inr BetterParticle \<and>
   getattr better_heap 0 ''superpower'' = Inr (PyInt 42) \<and>
   getattr better_heap 1 ''superpower'' = Inr (PyInt 7) \<and>
   components better_heap 0 = Some (PyInt 1, PyInt 2, PyInt 3, PyInt 10) \<and>
   components better_heap 1 = Some (PyInt 4, PyInt 5, PyInt 6, PyInt 20) \<and>
   (\<exists>h' r. obj_add better_heap 0 1 = Inr (h', r) \<and> type_of h' r = Inr Particle \<and>
     getattr h' r ''superpower'' = Inl (AttributeError ''superpower'') \<and>
     components h' r = Some (PyInt 5, PyInt 7, PyInt 9, PyInt 30))"
  using BetterParticle_add_returns_Particle [of better_heap 0 1 "PyInt 1" "PyInt 2" "PyInt 3"
      "PyInt 10" "PyInt 4" "PyInt 5" "PyInt 6" "PyInt 20" "PyInt 5" "PyInt 7" "PyInt 9" "PyInt 30"]
  by (simp add: better_heap_facts)

section \<open>The four implementations of the mass\<close>

lemma drop_heap: "and_then (and_then r (\<lambda>m. Inr (h, m))) (\<lambda>(h2, m). Inr m) = r"
  by (cases r) simp_all

lemma new_calc_mass_eq:
  "c \<noteq> BetterParticle \<Longrightarrow> new_calc_mass c h [px, py, pz, E] = calc_mass_simple px py pz E"
  by (simp add: new_calc_mass_def construct_four
        obj_calc_mass_components [OF components_particle_obj] drop_heap)

lemma calc_mass_dict_unfold:
  "calc_mass [''px'' \<mapsto> px, ''py'' \<mapsto> py, ''pz'' \<mapsto> pz, ''E'' \<mapsto> E] =
     and_then (py_pow2 px) (\<lambda>px2.
     and_then (py_pow2 py) (\<lambda>py2.
     and_then (py_add px2 py2) (\<lambda>s1.
     and_then (py_pow2 pz) (\<lambda>pz2.
     and_then (py_add s1 pz2) (\<lambda>momentum.
     and_then (py_pow2 E) (\<lambda>E2.
     and_then (py_sub E2 momentum) np_sqrt))))))"
  by (simp add: calc_mass_def getitem_def)

lemma returned_Inl [simp]: "returned (Inl e) = None"
  by (simp add: returned_def)

lemma returned_and_then_None:
  "(\<And>v. returned (f v) = None) \<Longrightarrow> returned (and_then r f) = None"
  by (cases r) simp_all

lemma calc_mass_dict_returned:
  "returned (calc_mass [''px'' \<mapsto> px, ''py'' \<mapsto> py, ''pz'' \<mapsto> pz, ''E'' \<mapsto> E]) =
     returned (calc_mass_simple px py pz E)"
proof (cases "py_pow2 E")
  case (Inl e)
  then show ?thesis
    unfolding calc_mass_dict_unfold calc_mass_simple_def
    by (simp add: returned_and_then_None)
next
  case (Inr E2)
  then show ?thesis
    unfolding calc_mass_dict_unfold calc_mass_simple_def by simp
qed

lemma py_pow2_number:
  assumes "is_number v"
  shows "py_pow2 v = Inl OverflowError \<or> (\<exists>w. py_pow2 v = Inr w \<and> is_number w)"
proof (cases v)
  case (PyFloat f)
  then show ?thesis by (cases f) (simp_all add: Let_def)
qed (use assms in simp_all)

lemma py_add_number:
  assumes "is_number x" and "is_number y"
  shows "py_add x y = Inl OverflowError \<or> (\<exists>w. py_add x y = Inr w \<and> is_number w)"
  using assms by (cases x; cases y) (simp_all add: int_to_float_def Let_def)

lemma calc_mass_dict_numbers:
  assumes "is_number px" and "is_number py" and "is_number pz" and "is_number E"
  shows "calc_mass [''px'' \<mapsto> px, ''py'' \<mapsto> py, ''pz'' \<mapsto> pz, ''E'' \<mapsto> E] =
     calc_mass_simple px py pz E"
proof (cases "py_pow2 E")
  case (Inr E2)
  then show ?thesis
    unfolding calc_mass_dict_unfold calc_mass_simple_def by simp
next
  case (Inl e)
  with py_pow2_number [OF assms(4)] have E: "py_pow2 E = Inl OverflowError" by auto
  have simple: "calc_mass_simple px py pz E = Inl OverflowError"
    by (simp add: calc_mass_simple_def E)
  have tail: "and_then (py_pow2 E) f = Inl OverflowError" for f :: "pyval \<Rightarrow> error + float64"
    by (simp add: E)
  have sum2: "and_then (py_add s z) (\<lambda>m. and_then (py_pow2 E) (g m)) = Inl OverflowError"
    if "is_number s" "is_number z" for s z and g :: "pyval \<Rightarrow> pyval \<Rightarrow> error + float64"
    using py_add_number [OF that] by (auto simp: E)
  have sq3: "and_then (py_pow2 pz) (\<lambda>z. and_then (py_add s z) (\<lambda>m. and_then (py_pow2 E) (g m)))
      = Inl OverflowError"
    if "is_number s" for s and g :: "pyval \<Rightarrow> pyval \<Rightarrow> error + float64"
    using py_pow2_number [OF assms(3)] sum2 [OF that] by auto
  have sum1: "and_then (py_add x y) (\<lambda>s. and_then (py_pow2 pz) (\<lambda>z. and_then (py_add s z)
      (\<lambda>m. and_then (py_pow2 E) (g m)))) = Inl OverflowError"
    if "is_number x" "is_number y" for x y and g :: "pyval \<Rightarrow> pyval \<Rightarrow> error + float64"
    using py_add_number [OF that] sq3 by auto
  have sq2: "and_then (py_pow2 py) (\<lambda>y. and_then (py_add x y) (\<lambda>s. and_then (py_pow2 pz)
      (\<lambda>z. and_then (py_add s z) (\<lambda>m. and_then (py_pow2 E) (g m))))) = Inl OverflowError"
    if "is_number x" for x and g :: "pyval \<Rightarrow> pyval \<Rightarrow> error + float64"
    using py_pow2_number [OF assms(2)] sum1 [OF that] by auto
  have "calc_mass [''px'' \<mapsto> px, ''py'' \<mapsto> py, ''pz'' \<mapsto> pz, ''E'' \<mapsto> E] = Inl OverflowError"
    unfolding calc_mass_dict_unfold
    using py_pow2_number [OF assms(1)] sq2 by auto
  with simple show ?thesis by simp
qed

text \<open>
  The dict-based function squares \<^verbatim>\<open>px\<close> first and \<^verbatim>\<open>calc_mass_simple\<close> squares \<^verbatim>\<open>E\<close>
  first, so on an input where both squares raise the two raise different exceptions.
\<close>

lemma exception_class_can_differ:
  "calc_mass [''px'' \<mapsto> PyNone, ''py'' \<mapsto> PyInt 0, ''pz'' \<mapsto> PyInt 0,
              ''E'' \<mapsto> PyFloat (Finite (2 ^ 512))] = Inl TypeError"
  "calc_mass_simple PyNone (PyInt 0) (PyInt 0) (PyFloat (Finite (2 ^ 512))) = Inl OverflowError"
proof -
  have "round64 (2 ^ 512 * 2 ^ 512) = 2 ^ 1024"
    using round64_pow2 [of 1024] by simp
  then show "calc_mass_simple PyNone (PyInt 0) (PyInt 0) (PyFloat (Finite (2 ^ 512))) =
      Inl OverflowError"
    by (simp add: calc_mass_simple_def)
  show "calc_mass [''px'' \<mapsto> PyNone, ''py'' \<mapsto> PyInt 0, ''pz'' \<mapsto> PyInt 0,
              ''E'' \<mapsto> PyFloat (Finite (2 ^ 512))] = Inl TypeError"
    by (simp add: calc_mass_dict_unfold)
qed

text \<open>
  Claim C10. For every four values and on every heap,
  \<^verbatim>\<open>SimpleParticle(px, py, pz, E).calc_mass()\<close> and \<^verbatim>\<open>Particle(px, py, pz, E).calc_mass()\<close>
  do what \<^verbatim>\<open>calc_mass_simple(px, py, pz, E)\<close> does, and the dict-based \<^verbatim>\<open>calc_mass\<close> on
  \<^verbatim>\<open>{'px': px, 'py': py, 'pz': pz, 'E': E}\<close> returns a value exactly when
  \<^verbatim>\<open>calc_mass_simple\<close> does, and then the same value. When the four values are numbers
  the dict-based function also raises the same exception as \<^verbatim>\<open>calc_mass_simple\<close>.
\<close>

theorem mass_implementations_agree:
  "new_calc_mass SimpleParticle h [px, py, pz, E] = calc_mass_simple px py pz E \<and>
   new_calc_mass Particle h [px, py, pz, E] = calc_mass_simple px py pz E \<and>
   returned (calc_mass [''px'' \<mapsto> px, ''py'' \<mapsto> py, ''pz'' \<mapsto> pz, ''E'' \<mapsto> E]) =
     returned (calc_mass_simple px py pz E) \<and>
   (is_number px \<and> is_number py \<and> is_number pz \<and> is_number E \<longrightarrow>
      calc_mass [''px'' \<mapsto> px, ''py'' \<mapsto> py, ''pz'' \<mapsto> pz, ''E'' \<mapsto> E] =
        calc_mass_simple px py pz E)"
  by (simp add: new_calc_mass_eq calc_mass_dict_returned calc_mass_dict_numbers)

text \<open>The notebook's first particle, (10, 20, 30, 100), through all four implementations.\<close>

theorem mass_implementations_agree_witness:
  "is_number (PyInt 10) \<and> is_number (PyInt 20) \<and> is_number (PyInt 30) \<and> is_number (PyInt 100) \<and>
   calc_mass_simple (PyInt 10) (PyInt 20) (PyInt 30) (PyInt 100) = Inr (Finite (round64 (sqrt 8600))) \<and>
   calc_mass [''px'' \<mapsto> PyInt 10, ''py'' \<mapsto> PyInt 20, ''pz'' \<mapsto> PyInt 30, ''E'' \<mapsto> PyInt 100] =
     Inr (Finite (round64 (sqrt 8600))) \<and>
   new_calc_mass SimpleParticle [] [PyInt 10, PyInt 20, PyInt 30, PyInt 100] =
     Inr (Finite (round64 (sqrt 8600))) \<and>
   new_calc_mass Particle [] [PyInt 10, PyInt 20, PyInt 30, PyInt 100] =
     Inr (Finite (round64 (sqrt 8600)))"
proof -
  have s: "calc_mass_simple (PyInt 10) (PyInt 20) (PyInt 30) (PyInt 100) =
      Inr (Finite (round64 (sqrt 8600)))"
    by (simp add: calc_mass_simple_int np_sqrt_int)
  show ?thesis
    using mass_implementations_agree [of "[]" "PyInt 10" "PyInt 20" "PyInt 30" "PyInt 100"]
    by (simp add: s)
qed

end
